theory Spec2Isabelle
  imports Main "HOL-Library.Word"
begin

unbundle bit_operations_syntax

section \<open>Status codes\<close>

text \<open>
  The C functions return \<^verbatim>\<open>int\<close>. Small integers (0, a negated errno, the device-mapper
  map results) are kept as numbers. The UDS and VDO status enumerations are declared in
  headers that are not among the sources (errors.h, statusCodes.h); the functions modelled
  here only compare them for equality, so they are kept symbolic.
\<close>

datatype status =
    Num int
  | UDS_ASSERTION_FAILED
  | UDS_BUFFER_ERROR
  | UDS_INCORRECT_ALIGNMENT
  | VDO_INCORRECT_COMPONENT
  | VDO_UNSUPPORTED_VERSION
  | VDO_PARAMETER_MISMATCH
  | VDO_TOO_MANY_SLABS

definition UDS_SUCCESS :: status where
  "UDS_SUCCESS = Num 0"

definition VDO_SUCCESS :: status where
  "VDO_SUCCESS = Num 0"

definition EINVAL :: int where
  "EINVAL = 22"

definition EIO :: int where
  "EIO = 5"

definition DM_MAPIO_SUBMITTED :: status where
  "DM_MAPIO_SUBMITTED = Num 0"

definition DM_MAPIO_REMAPPED :: status where
  "DM_MAPIO_REMAPPED = Num 1"

text \<open>
  The assertion macros of permassert.h (not among the sources): \<^verbatim>\<open>ASSERT\<close> yields
  \<^verbatim>\<open>UDS_SUCCESS\<close> when the expression holds and \<^verbatim>\<open>UDS_ASSERTION_FAILED\<close> otherwise;
  \<^verbatim>\<open>ASSERT_WITH_ERROR_CODE\<close> yields the given code instead. Messages written to the
  kernel log change no state and are left out of the model.
\<close>

definition ASSERT :: "bool \<Rightarrow> status" where
  "ASSERT expr = (if expr then UDS_SUCCESS else UDS_ASSERTION_FAILED)"

definition ASSERT_WITH_ERROR_CODE :: "bool \<Rightarrow> status \<Rightarrow> status" where
  "ASSERT_WITH_ERROR_CODE expr code = (if expr then UDS_SUCCESS else code)"

section \<open>Block I/O requests\<close>

text \<open>
  A \<^verbatim>\<open>struct bio\<close> as far as the kernel layer reads it: the operation and flag word
  \<^verbatim>\<open>bi_opf\<close>, the payload size \<^verbatim>\<open>bi_iter.bi_size\<close> (an unsigned int) and the sector.
  The operation codes and flag bits are those of the Linux block layer (blk_types.h).
\<close>

record bio =
  bi_opf :: "32 word"
  bi_size :: "32 word"
  bi_sector :: "64 word"

definition REQ_OP_MASK :: "32 word" where
  "REQ_OP_MASK = 255"

definition REQ_OP_READ :: "32 word" where
  "REQ_OP_READ = 0"

definition REQ_OP_WRITE :: "32 word" where
  "REQ_OP_WRITE = 1"

definition REQ_OP_FLUSH :: "32 word" where
  "REQ_OP_FLUSH = 2"

definition REQ_OP_DISCARD :: "32 word" where
  "REQ_OP_DISCARD = 3"

definition REQ_FUA :: "32 word" where
  "REQ_FUA = push_bit 17 1"

definition REQ_PREFLUSH :: "32 word" where
  "REQ_PREFLUSH = push_bit 18 1"

definition bio_op :: "bio \<Rightarrow> 32 word" where
  "bio_op b = bi_opf b AND REQ_OP_MASK"

definition check_bio_validity :: "bio \<Rightarrow> status" where
  "check_bio_validity b =
     (if bio_op b \<noteq> REQ_OP_READ \<and> bio_op b \<noteq> REQ_OP_WRITE \<and>
         bio_op b \<noteq> REQ_OP_FLUSH \<and> bio_op b \<noteq> REQ_OP_DISCARD
      then Num (- EINVAL)
      else let is_empty = (bi_size b = 0) in
        if bio_op b = REQ_OP_FLUSH \<or> bi_opf b AND REQ_PREFLUSH \<noteq> 0
        then ASSERT_WITH_ERROR_CODE is_empty (Num (- EINVAL))
        else ASSERT_WITH_ERROR_CODE (\<not> is_empty) (Num (- EINVAL)))"

text \<open>
  \<^verbatim>\<open>count_bios\<close> of bio.c. \<^verbatim>\<open>bio_data_dir\<close> is the low bit of the operation
  (the block layer's \<^verbatim>\<open>op_is_write\<close>). The counters are 64-bit atomics.
\<close>

record atomic_bio_stats =
  stat_read :: "64 word"
  stat_write :: "64 word"
  stat_discard :: "64 word"
  stat_flush :: "64 word"
  stat_fua :: "64 word"

definition bio_data_dir_is_write :: "bio \<Rightarrow> bool" where
  "bio_data_dir_is_write b \<longleftrightarrow> bio_op b AND 1 \<noteq> 0"

definition count_bios :: "atomic_bio_stats \<Rightarrow> bio \<Rightarrow> atomic_bio_stats" where
  "count_bios bio_stats b =
     (let s1 = (if bio_data_dir_is_write b
                then bio_stats\<lparr>stat_write := stat_write bio_stats + 1\<rparr>
                else bio_stats\<lparr>stat_read := stat_read bio_stats + 1\<rparr>);
          s2 = (if bio_op b = REQ_OP_DISCARD
                then s1\<lparr>stat_discard := stat_discard s1 + 1\<rparr> else s1);
          s3 = (if bio_op b = REQ_OP_FLUSH \<or> bi_opf b AND REQ_PREFLUSH \<noteq> 0
                then s2\<lparr>stat_flush := stat_flush s2 + 1\<rparr> else s2)
      in if bi_opf b AND REQ_FUA \<noteq> 0
         then s3\<lparr>stat_fua := stat_fua s3 + 1\<rparr> else s3)"

section \<open>The request limiter\<close>

text \<open>
  Modelled from the spec: limiter.h and limiter.c are not among the sources. The limiter
  is a counted semaphore: \<open>active\<close> permits are outstanding out of \<open>limit\<close>.
\<close>

record limiter =
  active :: nat
  limit :: nat

text \<open>Modelled from the spec: \<^verbatim>\<open>limiter_is_idle\<close> holds iff no permit is outstanding.\<close>

definition limiter_is_idle :: "limiter \<Rightarrow> bool" where
  "limiter_is_idle lim \<longleftrightarrow> active lim = 0"

text \<open>
  Modelled from the spec: \<^verbatim>\<open>limiter_poll\<close> is the non-blocking acquire; it returns true
  iff capacity was available, and then one more permit is outstanding.
\<close>

definition limiter_poll :: "limiter \<Rightarrow> bool \<times> limiter" where
  "limiter_poll lim =
     (if active lim < limit lim then (True, lim\<lparr>active := active lim + 1\<rparr>)
      else (False, lim))"

text \<open>Modelled from the spec: \<^verbatim>\<open>limiter_release_many\<close> returns \<open>n\<close> permits.\<close>

definition limiter_release_many :: "limiter \<Rightarrow> nat \<Rightarrow> limiter" where
  "limiter_release_many lim n = lim\<lparr>active := active lim - n\<rparr>"

text \<open>
  Modelled from the spec: \<^verbatim>\<open>limiter_wait_for_one_free\<close> is the blocking acquire. It
  takes a permit at once when one is free; otherwise it parks the caller until a release
  occurs. The model is sequential, so the other threads' work while the caller is parked
  is reduced to the least that wakes it: one permit is released and the caller takes it,
  which leaves the count at the limit. The first component tells whether the caller had
  to park.
\<close>

definition limiter_wait_for_one_free :: "limiter \<Rightarrow> bool \<times> limiter" where
  "limiter_wait_for_one_free lim =
     (if active lim < limit lim then (False, lim\<lparr>active := active lim + 1\<rparr>)
      else (True, lim\<lparr>active := limit lim\<rparr>))"

text \<open>
  Modelled from the spec: \<^verbatim>\<open>limiter_wait_for_idle\<close> blocks until the limiter is idle; the
  caller goes on at an instant at which no permit is outstanding.
\<close>

definition limiter_wait_for_idle :: "limiter \<Rightarrow> limiter" where
  "limiter_wait_for_idle lim = lim\<lparr>active := 0\<rparr>"

section \<open>The deadlock queue\<close>

text \<open>
  \<^verbatim>\<open>struct deadlock_queue\<close> of deadlockQueue.h: the list of saved bios and the one
  arrival time kept for all of them. \<^verbatim>\<open>Jiffies\<close> is a 64-bit tick count.
\<close>

type_synonym Jiffies = "64 word"

record deadlock_queue =
  bio_list :: "bio list"
  arrival_time :: Jiffies

text \<open>
  \<^verbatim>\<open>poll_deadlock_queue\<close> of deadlockQueue.h: pop the head of the list; when a bio was
  queued, the caller's arrival time variable receives the queue's arrival time, otherwise
  it keeps its value. The result is the bio (or NULL), the caller's variable and the queue.
\<close>

definition poll_deadlock_queue ::
  "deadlock_queue \<Rightarrow> Jiffies \<Rightarrow> bio option \<times> Jiffies \<times> deadlock_queue" where
  "poll_deadlock_queue queue arrival =
     (case bio_list queue of
        [] \<Rightarrow> (None, arrival, queue)
      | b # rest \<Rightarrow> (Some b, arrival_time queue, queue\<lparr>bio_list := rest\<rparr>))"

text \<open>
  Modelled from the spec: \<^verbatim>\<open>add_to_deadlock_queue\<close> is declared in deadlockQueue.h but
  deadlockQueue.c is not among the sources. The request is appended; when the queue goes
  from empty to non-empty the given arrival time is stored, and later pushes do not
  update it.
\<close>

definition add_to_deadlock_queue :: "deadlock_queue \<Rightarrow> bio \<Rightarrow> Jiffies \<Rightarrow> deadlock_queue" where
  "add_to_deadlock_queue queue b arrival =
     queue\<lparr>arrival_time := (if bio_list queue = [] then arrival else arrival_time queue),
           bio_list := bio_list queue @ [b]\<rparr>"

section \<open>The kernel layer\<close>

text \<open>
  The lifecycle states that kernelLayer.c names, and the parts of the device configuration
  that it reads. The declarations themselves are in kernelLayer.h and deviceConfig.h, which
  are not among the sources.
\<close>

datatype kernel_layer_state =
    LAYER_SIMPLE_THINGS_INITIALIZED
  | LAYER_BUFFER_POOLS_INITIALIZED
  | LAYER_REQUEST_QUEUE_INITIALIZED
  | LAYER_BIO_DATA_INITIALIZED
  | LAYER_BIO_ACK_QUEUE_INITIALIZED
  | LAYER_CPU_QUEUE_INITIALIZED
  | LAYER_STARTING
  | LAYER_RUNNING
  | LAYER_SUSPENDED
  | LAYER_STOPPING
  | LAYER_STOPPED
  | LAYER_RESUMING

datatype write_policy = WRITE_POLICY_SYNC | WRITE_POLICY_ASYNC | WRITE_POLICY_ASYNC_UNSAFE

record thread_count_config =
  bio_ack_threads :: int
  bio_threads :: int
  bio_rotation_interval :: int
  cpu_threads :: int
  logical_zones :: int
  physical_zones :: int
  hash_zones :: int

text \<open>The fields of the device-mapper target that the layer reads: \<^verbatim>\<open>begin\<close> and \<^verbatim>\<open>len\<close>, in sectors.\<close>

record dm_target =
  ti_begin :: "64 word"
  ti_len :: "64 word"

record device_config =
  owning_target :: dm_target
  pool_name :: string
  parent_device_name :: string
  physical_blocks :: "64 word"
  logical_block_size :: "32 word"
  write_policy :: write_policy
  cache_size :: "32 word"
  block_map_maximum_age :: "32 word"
  md_raid5_mode_enabled :: bool
  thread_counts :: thread_count_config

text \<open>
  Calls that leave the modelled sources (the limiter, the engine, the dedupe index, the
  block layer) are recorded, in program order, in a trace carried by the layer. The atomic
  store to the state field is recorded as well, so that its place among the calls shows.
\<close>

datatype limiter_id = Request_limiter | Discard_limiter

datatype event =
    Limiter_poll limiter_id bool
  | Limiter_wait_for_one_free limiter_id bool
  | Limiter_wait_for_idle limiter_id
  | Limiter_release_many limiter_id nat
  | Launch_kvdo_flush bio
  | Bio_set_dev bio
  | Kvdo_launch_data_kvio_from_bio bio Jiffies bool
  | Complete_bio bio status
  | Set_kvdo_compressing bool
  | Submit_bio_wait "32 word"
  | Set_kvdo_read_only status
  | Suspend_kvdo
  | Suspend_dedupe_index bool
  | Resume_dedupe_index
  | Resume_kvdo
  | Kvdo_prepare_to_grow_logical "64 word"
  | Kvdo_prepare_to_grow_physical "64 word"
  | Atomic_store_state kernel_layer_state

text \<open>
  The fields of \<^verbatim>\<open>struct kernel_layer\<close> that the modelled functions use. The field
  \<open>kvdo_compressing\<close> stands for the compression flag of the engine embedded in the layer
  (\<^verbatim>\<open>layer->kvdo\<close>), and \<open>trace\<close> is the record of calls described above.
\<close>

record kernel_layer =
  instance_number :: nat
  state :: kernel_layer_state
  request_limiter :: limiter
  discard_limiter :: limiter
  deadlock_queue :: deadlock_queue
  device_config :: device_config
  no_flush_suspend :: bool
  biosIn :: atomic_bio_stats
  biosAcknowledged :: atomic_bio_stats
  flushOut :: "64 word"
  kvdo_compressing :: bool
  trace :: "event list"

text \<open>
  What the collaborators answer. They are outside the sources, so their results are
  parameters: the tick counter, the work queue the calling thread runs on (by the
  instance number of the layer that owns it), whether the engine handles flushes itself,
  and the results of the engine calls and of the synchronous flush bio. The result of
  launching a data request may depend on everything done so far.
\<close>

record work_queue =
  owner :: nat

record env =
  jiffies :: Jiffies
  current_work_queue :: "work_queue option"
  should_process_flush :: bool
  launch_result :: "event list \<Rightarrow> bio \<Rightarrow> bool \<Rightarrow> status"
  flush_errno :: int
  suspend_kvdo_result :: status
  resume_kvdo_result :: status
  prepare_to_grow_logical_result :: "64 word \<Rightarrow> status"
  prepare_to_grow_physical_result :: "64 word \<Rightarrow> status"

definition emit :: "event \<Rightarrow> kernel_layer \<Rightarrow> kernel_layer" where
  "emit e layer = layer\<lparr>trace := trace layer @ [e]\<rparr>"

definition get_limiter :: "limiter_id \<Rightarrow> kernel_layer \<Rightarrow> limiter" where
  "get_limiter lid layer =
     (case lid of Request_limiter \<Rightarrow> request_limiter layer
                | Discard_limiter \<Rightarrow> discard_limiter layer)"

definition set_limiter :: "limiter_id \<Rightarrow> limiter \<Rightarrow> kernel_layer \<Rightarrow> kernel_layer" where
  "set_limiter lid lim layer =
     (case lid of Request_limiter \<Rightarrow> layer\<lparr>request_limiter := lim\<rparr>
                | Discard_limiter \<Rightarrow> layer\<lparr>discard_limiter := lim\<rparr>)"

text \<open>
  The limiter operations applied to one of the layer's two limiters, each recorded in the
  trace with what it answered.
\<close>

definition do_limiter_poll :: "limiter_id \<Rightarrow> kernel_layer \<Rightarrow> bool \<times> kernel_layer" where
  "do_limiter_poll lid layer =
     (let (acquired, lim) = limiter_poll (get_limiter lid layer)
      in (acquired, emit (Limiter_poll lid acquired) (set_limiter lid lim layer)))"

definition do_limiter_wait_for_one_free :: "limiter_id \<Rightarrow> kernel_layer \<Rightarrow> kernel_layer" where
  "do_limiter_wait_for_one_free lid layer =
     (let (parked, lim) = limiter_wait_for_one_free (get_limiter lid layer)
      in emit (Limiter_wait_for_one_free lid parked) (set_limiter lid lim layer))"

definition do_limiter_wait_for_idle :: "limiter_id \<Rightarrow> kernel_layer \<Rightarrow> kernel_layer" where
  "do_limiter_wait_for_idle lid layer =
     emit (Limiter_wait_for_idle lid)
       (set_limiter lid (limiter_wait_for_idle (get_limiter lid layer)) layer)"

definition do_limiter_release_many :: "limiter_id \<Rightarrow> nat \<Rightarrow> kernel_layer \<Rightarrow> kernel_layer" where
  "do_limiter_release_many lid n layer =
     emit (Limiter_release_many lid n)
       (set_limiter lid (limiter_release_many (get_limiter lid layer) n) layer)"

text \<open>
  Modelled from the spec: \<^verbatim>\<open>set_kvdo_compressing\<close> belongs to the engine (kvdo.c, not
  among the sources): it sets the packer's compression flag and returns the prior value.
\<close>

definition set_kvdo_compressing :: "kernel_layer \<Rightarrow> bool \<Rightarrow> bool \<times> kernel_layer" where
  "set_kvdo_compressing layer enable =
     (kvdo_compressing layer,
      emit (Set_kvdo_compressing enable) (layer\<lparr>kvdo_compressing := enable\<rparr>))"

text \<open>
  Modelled from the spec: \<^verbatim>\<open>kvdo_launch_data_kvio_from_bio\<close> (dataKVIO.c, not among the
  sources) hands the request and the permits held for it to the engine, which owns them
  from then on whether the hand-off succeeds or fails. The call is recorded and its status
  is the collaborator's answer.
\<close>

definition kvdo_launch_data_kvio_from_bio ::
  "env \<Rightarrow> kernel_layer \<Rightarrow> bio \<Rightarrow> Jiffies \<Rightarrow> bool \<Rightarrow> status \<times> kernel_layer" where
  "kvdo_launch_data_kvio_from_bio e layer b arrival has_discard_permit =
     (launch_result e (trace layer) b has_discard_permit,
      emit (Kvdo_launch_data_kvio_from_bio b arrival has_discard_permit) layer)"

text \<open>\<^verbatim>\<open>set_kernel_layer_state\<close>: the atomic store to the state field.\<close>

definition set_kernel_layer_state :: "kernel_layer \<Rightarrow> kernel_layer_state \<Rightarrow> kernel_layer" where
  "set_kernel_layer_state layer new_state =
     emit (Atomic_store_state new_state) (layer\<lparr>state := new_state\<rparr>)"

text \<open>\<^verbatim>\<open>ASSERT_LOG_ONLY\<close> of permassert.h logs a failed assertion and yields success.\<close>

definition ASSERT_LOG_ONLY :: "bool \<Rightarrow> status" where
  "ASSERT_LOG_ONLY expr = UDS_SUCCESS"

subsection \<open>Quiescing and suspending\<close>

text \<open>
  \<^verbatim>\<open>wait_for_no_requests_active\<close>, \<^verbatim>\<open>synchronous_flush\<close>, \<^verbatim>\<open>suspend_kernel_layer\<close> and
  \<^verbatim>\<open>resume_kernel_layer\<close> of kernelLayer.c. The synchronous flush submits one bio with
  \<^verbatim>\<open>REQ_OP_WRITE | REQ_PREFLUSH\<close> and waits for it; \<open>flush_errno\<close> is what
  \<^verbatim>\<open>blk_status_to_errno\<close> makes of its status.
\<close>

definition wait_for_no_requests_active :: "kernel_layer \<Rightarrow> kernel_layer" where
  "wait_for_no_requests_active layer =
     (if limiter_is_idle (request_limiter layer) then layer
      else let (was_compressing, l1) = set_kvdo_compressing layer False;
               l2 = do_limiter_wait_for_idle Request_limiter l1
           in if was_compressing then snd (set_kvdo_compressing l2 True) else l2)"

definition synchronous_flush :: "env \<Rightarrow> kernel_layer \<Rightarrow> status \<times> kernel_layer" where
  "synchronous_flush e layer =
     (let l1 = emit (Submit_bio_wait (REQ_OP_WRITE OR REQ_PREFLUSH)) layer;
          result = flush_errno e;
          l2 = l1\<lparr>flushOut := flushOut l1 + 1\<rparr>
      in (if result \<noteq> 0 then Num (- EIO) else Num result, l2))"

definition suspend_kernel_layer :: "env \<Rightarrow> kernel_layer \<Rightarrow> status \<times> kernel_layer" where
  "suspend_kernel_layer e layer =
     (if state layer = LAYER_SUSPENDED then (VDO_SUCCESS, layer)
      else if state layer \<noteq> LAYER_RUNNING then (Num (- EINVAL), layer)
      else
        let l1 = wait_for_no_requests_active layer;
            (result, l2) = synchronous_flush e l1;
            l3 = (if result \<noteq> VDO_SUCCESS then emit (Set_kvdo_read_only result) l2 else l2);
            suspend_result = suspend_kvdo_result e;
            l4 = emit Suspend_kvdo l3;
            result' = (if result = VDO_SUCCESS then suspend_result else result);
            l5 = emit (Suspend_dedupe_index (\<not> no_flush_suspend l4)) l4;
            l6 = set_kernel_layer_state l5 LAYER_SUSPENDED
        in (result', l6))"

definition resume_kernel_layer :: "env \<Rightarrow> kernel_layer \<Rightarrow> status \<times> kernel_layer" where
  "resume_kernel_layer e layer =
     (if state layer = LAYER_RUNNING then (VDO_SUCCESS, layer)
      else
        let l1 = emit Resume_dedupe_index layer;
            result = resume_kvdo_result e;
            l2 = emit Resume_kvdo l1
        in if result \<noteq> VDO_SUCCESS then (result, l2)
           else (VDO_SUCCESS, set_kernel_layer_state l2 LAYER_RUNNING))"

subsection \<open>Admission\<close>

text \<open>
  \<^verbatim>\<open>launch_data_kvio_from_vdo_thread\<close> and \<^verbatim>\<open>kvdo_map_bio\<close> of kernelLayer.c. The test
  \<open>on_own_work_queue\<close> is the condition of \<^verbatim>\<open>kvdo_map_bio\<close>: the calling thread has a
  current work queue and this layer is its owner.
\<close>

definition launch_data_kvio_from_vdo_thread ::
  "env \<Rightarrow> kernel_layer \<Rightarrow> bio \<Rightarrow> Jiffies \<Rightarrow> status \<times> kernel_layer" where
  "launch_data_kvio_from_vdo_thread e layer b arrival =
     (let (acquired, l1) = do_limiter_poll Request_limiter layer in
      if \<not> acquired
      then (DM_MAPIO_SUBMITTED,
            l1\<lparr>deadlock_queue := add_to_deadlock_queue (deadlock_queue l1) b arrival\<rparr>)
      else
        let (has_discard_permit, l2) =
              (if bio_op b = REQ_OP_DISCARD then do_limiter_poll Discard_limiter l1
               else (False, l1));
            (result, l3) = kvdo_launch_data_kvio_from_bio e l2 b arrival has_discard_permit
        in if result \<noteq> VDO_SUCCESS then (result, l3) else (DM_MAPIO_SUBMITTED, l3))"

definition on_own_work_queue :: "env \<Rightarrow> kernel_layer \<Rightarrow> bool" where
  "on_own_work_queue e layer =
     (case current_work_queue e of
        None \<Rightarrow> False
      | Some q \<Rightarrow> instance_number layer = owner q)"

definition kvdo_map_bio :: "env \<Rightarrow> kernel_layer \<Rightarrow> bio \<Rightarrow> status \<times> kernel_layer" where
  "kvdo_map_bio e layer b =
     (let arrival = jiffies e;
          logged = ASSERT_LOG_ONLY (state layer = LAYER_RUNNING);
          l1 = layer\<lparr>biosIn := count_bios (biosIn layer) b\<rparr>;
          result = check_bio_validity b
      in if result \<noteq> UDS_SUCCESS then (result, l1)
         else if bio_op b = REQ_OP_FLUSH \<or> bi_opf b AND REQ_PREFLUSH \<noteq> 0
         then (if should_process_flush e
               then (DM_MAPIO_SUBMITTED, emit (Launch_kvdo_flush b) l1)
               else (DM_MAPIO_REMAPPED,
                     emit (Bio_set_dev b)
                       (l1\<lparr>biosAcknowledged := count_bios (biosAcknowledged l1) b,
                           flushOut := flushOut l1 + 1\<rparr>)))
         else if on_own_work_queue e layer
         then launch_data_kvio_from_vdo_thread e l1 b arrival
         else
           let l2 = (if bio_op b = REQ_OP_DISCARD
                     then do_limiter_wait_for_one_free Discard_limiter l1 else l1);
               has_discard_permit = (bio_op b = REQ_OP_DISCARD);
               l3 = do_limiter_wait_for_one_free Request_limiter l2;
               (result, l4) = kvdo_launch_data_kvio_from_bio e l3 b arrival has_discard_permit
           in if result \<noteq> VDO_SUCCESS then (result, l4) else (DM_MAPIO_SUBMITTED, l4))"

subsection \<open>Completion\<close>

text \<open>
  The loop of \<^verbatim>\<open>complete_many_requests\<close>: while the count is positive, take a deferred bio
  off the deadlock queue and launch it, leaving the loop when the queue is empty. The count
  is a \<^verbatim>\<open>uint32_t\<close>. The result is the layer and the count left over.
\<close>

function complete_many_loop :: "env \<Rightarrow> kernel_layer \<Rightarrow> 32 word \<Rightarrow> kernel_layer \<times> 32 word" where
  "complete_many_loop e layer count =
     (if count > 0 then
        (case poll_deadlock_queue (deadlock_queue layer) 0 of
           (None, arrival, queue) \<Rightarrow> (layer, count)
         | (Some b, arrival, queue) \<Rightarrow>
             let l1 = layer\<lparr>deadlock_queue := queue\<rparr>;
                 (has_discard_permit, l2) =
                   (if bio_op b = REQ_OP_DISCARD then do_limiter_poll Discard_limiter l1
                    else (False, l1));
                 (result, l3) = kvdo_launch_data_kvio_from_bio e l2 b arrival has_discard_permit;
                 l4 = (if result \<noteq> VDO_SUCCESS then emit (Complete_bio b result) l3 else l3)
             in complete_many_loop e l4 (count - 1))
      else (layer, count))"
  by pat_completeness auto
termination
  by (relation "measure (\<lambda>(e, layer, count). unat count)")
     (auto simp: unat_minus_one word_greater_zero_iff unat_gt_0)

declare complete_many_loop.simps [simp del]

definition complete_many_requests :: "env \<Rightarrow> kernel_layer \<Rightarrow> 32 word \<Rightarrow> kernel_layer" where
  "complete_many_requests e layer count =
     (let (l1, count') = complete_many_loop e layer count
      in if count' > 0 then do_limiter_release_many Request_limiter (unat count') l1 else l1)"

subsection \<open>Preparing a modification\<close>

text \<open>The block layer's \<^verbatim>\<open>to_bytes\<close> (sectors of 512 bytes) and the VDO block size.\<close>

definition to_bytes :: "64 word \<Rightarrow> 64 word" where
  "to_bytes n = push_bit 9 n"

definition VDO_BLOCK_SIZE :: "64 word" where
  "VDO_BLOCK_SIZE = 4096"

definition prepare_to_resize_logical ::
  "env \<Rightarrow> kernel_layer \<Rightarrow> 64 word \<Rightarrow> status \<times> kernel_layer" where
  "prepare_to_resize_logical e layer logical_count =
     (let result = prepare_to_grow_logical_result e logical_count;
          l1 = emit (Kvdo_prepare_to_grow_logical logical_count) layer
      in if result \<noteq> VDO_SUCCESS then (result, l1) else (VDO_SUCCESS, l1))"

definition prepare_to_resize_physical ::
  "env \<Rightarrow> kernel_layer \<Rightarrow> 64 word \<Rightarrow> status \<times> kernel_layer" where
  "prepare_to_resize_physical e layer physical_count =
     (let result = prepare_to_grow_physical_result e physical_count;
          l1 = emit (Kvdo_prepare_to_grow_physical physical_count) layer
      in if result \<noteq> VDO_SUCCESS
         then (if result = VDO_PARAMETER_MISMATCH then (Num (- EINVAL), l1) else (result, l1))
         else (VDO_SUCCESS, l1))"

text \<open>
  \<^verbatim>\<open>prepare_to_modify_kernel_layer\<close>: the status, the message stored through
  \<^verbatim>\<open>error_ptr\<close> (if any) and the layer. \<^verbatim>\<open>strcmp\<close> and \<^verbatim>\<open>memcmp\<close> are equality of
  the names and of the thread counts.
\<close>

definition prepare_to_modify_kernel_layer ::
  "env \<Rightarrow> kernel_layer \<Rightarrow> device_config \<Rightarrow> status \<times> string option \<times> kernel_layer" where
  "prepare_to_modify_kernel_layer e layer config =
     (let extant_config = device_config layer in
      if ti_begin (owning_target config) \<noteq> ti_begin (owning_target extant_config)
      then (VDO_PARAMETER_MISMATCH, Some ''Starting sector cannot change'', layer)
      else if parent_device_name config \<noteq> parent_device_name extant_config
      then (VDO_PARAMETER_MISMATCH, Some ''Underlying device cannot change'', layer)
      else if logical_block_size config \<noteq> logical_block_size extant_config
      then (VDO_PARAMETER_MISMATCH, Some ''Logical block size cannot change'', layer)
      else if cache_size config \<noteq> cache_size extant_config
      then (VDO_PARAMETER_MISMATCH, Some ''Block map cache size cannot change'', layer)
      else if block_map_maximum_age config \<noteq> block_map_maximum_age extant_config
      then (VDO_PARAMETER_MISMATCH, Some ''Block map maximum age cannot change'', layer)
      else if md_raid5_mode_enabled config \<noteq> md_raid5_mode_enabled extant_config
      then (VDO_PARAMETER_MISMATCH, Some ''mdRaid5Mode cannot change'', layer)
      else if thread_counts config \<noteq> thread_counts extant_config
      then (VDO_PARAMETER_MISMATCH, Some ''Thread configuration cannot change'', layer)
      else
        let (r1, err1, l1) =
              (if ti_len (owning_target config) \<noteq> ti_len (owning_target extant_config)
               then
                 let logical_bytes = to_bytes (ti_len (owning_target config)) in
                 if logical_bytes mod VDO_BLOCK_SIZE \<noteq> 0
                 then (VDO_PARAMETER_MISMATCH,
                       Some ''Logical size must be a multiple of 4096'', layer)
                 else
                   let (result, l) =
                         prepare_to_resize_logical e layer (logical_bytes div VDO_BLOCK_SIZE)
                   in if result \<noteq> VDO_SUCCESS
                      then (result, Some ''Device prepare_to_grow_logical failed'', l)
                      else (VDO_SUCCESS, None, l)
               else (VDO_SUCCESS, None, layer))
        in if r1 \<noteq> VDO_SUCCESS then (r1, err1, l1)
           else if physical_blocks config \<noteq> physical_blocks extant_config
           then
             let (result, l2) = prepare_to_resize_physical e l1 (physical_blocks config)
             in if result \<noteq> VDO_SUCCESS
                then (result,
                      Some (if result = VDO_TOO_MANY_SLABS
                            then ''Device prepare_to_grow_physical failed (specified physical size too big based on formatted slab size)''
                            else ''Device prepare_to_grow_physical failed''),
                      l2)
                else (VDO_SUCCESS, None, l2)
           else (VDO_SUCCESS, None, l1))"

text \<open>
  The immutable fields of a configuration, as \<^verbatim>\<open>prepare_to_modify_kernel_layer\<close> compares
  them: starting sector, parent device name, logical block size, cache size, block map
  maximum age, md-raid5 mode and thread counts.
\<close>

definition immutable_fields_differ :: "device_config \<Rightarrow> device_config \<Rightarrow> bool" where
  "immutable_fields_differ config extant \<longleftrightarrow>
     ti_begin (owning_target config) \<noteq> ti_begin (owning_target extant) \<or>
     parent_device_name config \<noteq> parent_device_name extant \<or>
     logical_block_size config \<noteq> logical_block_size extant \<or>
     cache_size config \<noteq> cache_size extant \<or>
     block_map_maximum_age config \<noteq> block_map_maximum_age extant \<or>
     md_raid5_mode_enabled config \<noteq> md_raid5_mode_enabled extant \<or>
     thread_counts config \<noteq> thread_counts extant"

subsection \<open>Observing a call\<close>

text \<open>
  A valid data request is one the classifier accepts and that is not a flush; the events
  a call adds to the trace; the calls on which a thread may sleep (the limiter's two
  waiting operations); the requests launched and the request permits released.
\<close>

definition valid_data_request :: "bio \<Rightarrow> bool" where
  "valid_data_request b \<longleftrightarrow>
     check_bio_validity b = UDS_SUCCESS \<and> bio_op b \<noteq> REQ_OP_FLUSH \<and>
     bi_opf b AND REQ_PREFLUSH = 0"

definition is_blocking_call :: "event \<Rightarrow> bool" where
  "is_blocking_call ev =
     (case ev of Limiter_wait_for_one_free lid parked \<Rightarrow> True
               | Limiter_wait_for_idle lid \<Rightarrow> True
               | _ \<Rightarrow> False)"

definition new_events :: "kernel_layer \<Rightarrow> kernel_layer \<Rightarrow> event list" where
  "new_events before after = drop (length (trace before)) (trace after)"

text \<open>
  The completion path in the words of the specification: pop the first
  \<open>min n (queue length)\<close> deferred requests, relaunch each in queue order (for a discard
  with a best-effort poll of the discard limiter, launching with or without the permit),
  then release \<open>n\<close> minus the number popped to the request limiter when that is positive.
  A relaunch that the engine refuses completes the request with the error, as the loop of
  \<^verbatim>\<open>complete_many_requests\<close> does.
\<close>

definition relaunch_deferred :: "env \<Rightarrow> kernel_layer \<Rightarrow> bio \<Rightarrow> Jiffies \<Rightarrow> kernel_layer" where
  "relaunch_deferred e layer b arrival =
     (let (has_discard_permit, l1) =
            (if bio_op b = REQ_OP_DISCARD then do_limiter_poll Discard_limiter layer
             else (False, layer));
          (result, l2) = kvdo_launch_data_kvio_from_bio e l1 b arrival has_discard_permit
      in if result \<noteq> VDO_SUCCESS then emit (Complete_bio b result) l2 else l2)"

fun relaunch_all :: "env \<Rightarrow> kernel_layer \<Rightarrow> bio list \<Rightarrow> Jiffies \<Rightarrow> kernel_layer" where
  "relaunch_all e layer [] arrival = layer"
| "relaunch_all e layer (b # bs) arrival =
     relaunch_all e (relaunch_deferred e layer b arrival) bs arrival"

definition complete_batch_spec :: "env \<Rightarrow> kernel_layer \<Rightarrow> nat \<Rightarrow> kernel_layer" where
  "complete_batch_spec e layer n =
     (let queue = deadlock_queue layer;
          k = min n (length (bio_list queue));
          popped = take k (bio_list queue);
          l1 = layer\<lparr>deadlock_queue := queue\<lparr>bio_list := drop k (bio_list queue)\<rparr>\<rparr>;
          l2 = relaunch_all e l1 popped (arrival_time queue)
      in if n - k > 0 then do_limiter_release_many Request_limiter (n - k) l2 else l2)"

fun launched :: "event list \<Rightarrow> bio list" where
  "launched [] = []"
| "launched (Kvdo_launch_data_kvio_from_bio b arrival has_permit # evs) = b # launched evs"
| "launched (ev # evs) = launched evs"

fun released :: "event list \<Rightarrow> nat list" where
  "released [] = []"
| "released (Limiter_release_many Request_limiter n # evs) = n # released evs"
| "released (ev # evs) = released evs"

subsection \<open>Concrete states for the examples\<close>

definition example_config :: device_config where
  "example_config =
     \<lparr>owning_target = \<lparr>ti_begin = 0, ti_len = 2097152\<rparr>,
      pool_name = ''vdo0'',
      parent_device_name = ''/dev/sdb'',
      physical_blocks = 262144,
      logical_block_size = 4096,
      write_policy = WRITE_POLICY_ASYNC,
      cache_size = 32768,
      block_map_maximum_age = 16380,
      md_raid5_mode_enabled = False,
      thread_counts =
        \<lparr>bio_ack_threads = 1, bio_threads = 4, bio_rotation_interval = 64, cpu_threads = 2,
         logical_zones = 1, physical_zones = 1, hash_zones = 1\<rparr>\<rparr>"

definition zero_stats :: atomic_bio_stats where
  "zero_stats = \<lparr>stat_read = 0, stat_write = 0, stat_discard = 0, stat_flush = 0, stat_fua = 0\<rparr>"

definition example_layer :: kernel_layer where
  "example_layer =
     \<lparr>instance_number = 0,
      state = LAYER_RUNNING,
      request_limiter = \<lparr>active = 0, limit = 2000\<rparr>,
      discard_limiter = \<lparr>active = 0, limit = 1500\<rparr>,
      deadlock_queue = \<lparr>bio_list = [], arrival_time = 0\<rparr>,
      device_config = example_config,
      no_flush_suspend = False,
      biosIn = zero_stats,
      biosAcknowledged = zero_stats,
      flushOut = 0,
      kvdo_compressing = True,
      trace = []\<rparr>"

definition example_env :: env where
  "example_env =
     \<lparr>jiffies = 1000,
      current_work_queue = None,
      should_process_flush = True,
      launch_result = (\<lambda>tr b p. VDO_SUCCESS),
      flush_errno = 0,
      suspend_kvdo_result = VDO_SUCCESS,
      resume_kvdo_result = VDO_SUCCESS,
      prepare_to_grow_logical_result = (\<lambda>n. VDO_SUCCESS),
      prepare_to_grow_physical_result = (\<lambda>n. VDO_SUCCESS)\<rparr>"

definition write_bio :: bio where
  "write_bio = \<lparr>bi_opf = REQ_OP_WRITE, bi_size = 4096, bi_sector = 8\<rparr>"

definition discard_bio :: bio where
  "discard_bio = \<lparr>bi_opf = REQ_OP_DISCARD, bi_size = 4096, bi_sector = 16\<rparr>"

section \<open>The block map state codec\<close>

text \<open>
  Modelled from the spec: the byte order of the persisted state. The fixed-width integers
  are packed little-endian; \<open>le_encode n v\<close> gives the \<open>n\<close> bytes of \<open>v\<close>, least
  significant first, and \<open>le_decode\<close> reads them back.
\<close>

type_synonym byte = "8 word"

fun le_encode :: "nat \<Rightarrow> nat \<Rightarrow> byte list" where
  "le_encode 0 v = []"
| "le_encode (Suc n) v = of_nat (v mod 256) # le_encode n (v div 256)"

text \<open>Modelled from the spec: the value of a little-endian byte sequence.\<close>

fun le_decode :: "byte list \<Rightarrow> nat" where
  "le_decode [] = 0"
| "le_decode (b # bs) = unat b + 256 * le_decode bs"

text \<open>
  Modelled from the spec: buffer.c is not among the sources. A buffer holds the bytes
  written and not yet read (\<open>content\<close>, read from the front and appended at the end) and
  the room left for more (\<open>space\<close>). A put fails with \<^verbatim>\<open>UDS_BUFFER_ERROR\<close> when the room
  is too small, a get when too few bytes are left; neither changes the buffer then.
\<close>

record buffer =
  content :: "byte list"
  space :: nat

text \<open>Modelled from the spec: \<^verbatim>\<open>content_length\<close>, the number of bytes not yet read.\<close>

definition content_length :: "buffer \<Rightarrow> nat" where
  "content_length b = length (content b)"

text \<open>Modelled from the spec: appending bytes, if there is room for them.\<close>

definition put_bytes :: "buffer \<Rightarrow> byte list \<Rightarrow> status \<times> buffer" where
  "put_bytes b bytes =
     (if space b < length bytes then (UDS_BUFFER_ERROR, b)
      else (UDS_SUCCESS, b\<lparr>content := content b @ bytes, space := space b - length bytes\<rparr>))"

text \<open>Modelled from the spec: reading \<open>n\<close> bytes from the front, if that many are left.\<close>

definition get_bytes :: "buffer \<Rightarrow> nat \<Rightarrow> status + (byte list \<times> buffer)" where
  "get_bytes b n =
     (if content_length b < n then Inl UDS_BUFFER_ERROR
      else Inr (take n (content b), b\<lparr>content := drop n (content b)\<rparr>))"

text \<open>Modelled from the spec: \<^verbatim>\<open>put_uint32_le_into_buffer\<close>, four bytes little-endian.\<close>

definition put_uint32_le_into_buffer :: "buffer \<Rightarrow> 32 word \<Rightarrow> status \<times> buffer" where
  "put_uint32_le_into_buffer b ui = put_bytes b (le_encode 4 (unat ui))"

text \<open>Modelled from the spec: \<^verbatim>\<open>put_uint64_le_into_buffer\<close>, eight bytes little-endian.\<close>

definition put_uint64_le_into_buffer :: "buffer \<Rightarrow> 64 word \<Rightarrow> status \<times> buffer" where
  "put_uint64_le_into_buffer b ui = put_bytes b (le_encode 8 (unat ui))"

text \<open>
  Modelled from the spec: \<^verbatim>\<open>get_uint32_le_from_buffer\<close>; the error, or the value read and
  the buffer after it.
\<close>

definition get_uint32_le_from_buffer :: "buffer \<Rightarrow> status + (32 word \<times> buffer)" where
  "get_uint32_le_from_buffer b =
     (case get_bytes b 4 of Inl err \<Rightarrow> Inl err
      | Inr (bytes, b') \<Rightarrow> Inr (of_nat (le_decode bytes), b'))"

text \<open>
  Modelled from the spec: \<^verbatim>\<open>get_uint64_le_from_buffer\<close>; the error, or the value read and
  the buffer after it.
\<close>

definition get_uint64_le_from_buffer :: "buffer \<Rightarrow> status + (64 word \<times> buffer)" where
  "get_uint64_le_from_buffer b =
     (case get_bytes b 8 of Inl err \<Rightarrow> Inl err
      | Inr (bytes, b') \<Rightarrow> Inr (of_nat (le_decode bytes), b'))"

text \<open>
  Modelled from the spec: the component header (header.c and header.h are not among the
  sources): a component id, a version and the size of the payload, encoded as two 32-bit
  version numbers after the 32-bit id, then the 64-bit size. \<^verbatim>\<open>validate_header\<close> accepts
  a header whose id and version are the expected ones and whose size, when it must be
  exact, is the expected size.
\<close>

record version_number =
  major_version :: "32 word"
  minor_version :: "32 word"

record header =
  header_id :: "32 word"
  version :: version_number
  header_size :: "64 word"

text \<open>Modelled from the spec: \<^verbatim>\<open>encode_header\<close> writes id, version and size in this order.\<close>

definition encode_header :: "header \<Rightarrow> buffer \<Rightarrow> status \<times> buffer" where
  "encode_header h b =
     (case put_uint32_le_into_buffer b (header_id h) of (result, b1) \<Rightarrow>
      if result \<noteq> UDS_SUCCESS then (result, b1) else
      case put_uint32_le_into_buffer b1 (major_version (version h)) of (result, b2) \<Rightarrow>
      if result \<noteq> UDS_SUCCESS then (result, b2) else
      case put_uint32_le_into_buffer b2 (minor_version (version h)) of (result, b3) \<Rightarrow>
      if result \<noteq> UDS_SUCCESS then (result, b3) else
      put_uint64_le_into_buffer b3 (header_size h))"

text \<open>
  Modelled from the spec: \<^verbatim>\<open>decode_header\<close> reads them back; the header is produced only
  when all four reads succeed.
\<close>

definition decode_header :: "buffer \<Rightarrow> status + (header \<times> buffer)" where
  "decode_header b =
     (case get_uint32_le_from_buffer b of Inl err \<Rightarrow> Inl err | Inr (i, b1) \<Rightarrow>
      case get_uint32_le_from_buffer b1 of Inl err \<Rightarrow> Inl err | Inr (major, b2) \<Rightarrow>
      case get_uint32_le_from_buffer b2 of Inl err \<Rightarrow> Inl err | Inr (minor, b3) \<Rightarrow>
      case get_uint64_le_from_buffer b3 of Inl err \<Rightarrow> Inl err | Inr (sz, b4) \<Rightarrow>
      Inr (\<lparr>header_id = i, version = \<lparr>major_version = major, minor_version = minor\<rparr>, header_size = sz\<rparr>,
           b4))"

text \<open>
  Modelled from the spec: \<^verbatim>\<open>validate_header\<close> with the expected header, the actual one
  and whether the size must be exact.
\<close>

definition validate_header :: "header \<Rightarrow> header \<Rightarrow> bool \<Rightarrow> status" where
  "validate_header expected actual exact_size =
     (if header_id expected \<noteq> header_id actual then VDO_INCORRECT_COMPONENT
      else if version expected \<noteq> version actual then VDO_UNSUPPORTED_VERSION
      else if header_size expected > header_size actual \<or> (exact_size \<and> header_size expected < header_size actual)
      then VDO_UNSUPPORTED_VERSION
      else VDO_SUCCESS)"

text \<open>
  The block map component of blockMapFormat.c. The component id and the flat page origin
  are declared in types.h and constants.h (not among the sources); the state structure is
  four 64-bit fields, 32 bytes.
\<close>

definition BLOCK_MAP :: "32 word" where
  "BLOCK_MAP = 4"

definition BLOCK_MAP_FLAT_PAGE_ORIGIN :: "64 word" where
  "BLOCK_MAP_FLAT_PAGE_ORIGIN = 1"

record block_map_state_2_0 =
  flat_page_origin :: "64 word"
  flat_page_count :: "64 word"
  root_origin :: "64 word"
  root_count :: "64 word"

definition sizeof_block_map_state_2_0 :: nat where
  "sizeof_block_map_state_2_0 = 32"

definition BLOCK_MAP_HEADER_2_0 :: header where
  "BLOCK_MAP_HEADER_2_0 =
     \<lparr>header_id = BLOCK_MAP,
      version = \<lparr>major_version = 2, minor_version = 0\<rparr>,
      header_size = of_nat sizeof_block_map_state_2_0\<rparr>"

definition decode_block_map_state_2_0 ::
  "buffer \<Rightarrow> block_map_state_2_0 \<Rightarrow> status \<times> block_map_state_2_0 \<times> buffer" where
  "decode_block_map_state_2_0 b st =
     (case decode_header b of Inl result \<Rightarrow> (result, st, b) | Inr (hdr, b0) \<Rightarrow>
      let result = validate_header BLOCK_MAP_HEADER_2_0 hdr True in
      if result \<noteq> VDO_SUCCESS then (result, st, b0) else
      let initial_length = content_length b0 in
      case get_uint64_le_from_buffer b0 of Inl result \<Rightarrow> (result, st, b0) | Inr (v1, b1) \<Rightarrow>
      let s1 = st\<lparr>flat_page_origin := v1\<rparr>;
          result = ASSERT (flat_page_origin s1 = BLOCK_MAP_FLAT_PAGE_ORIGIN) in
      if result \<noteq> UDS_SUCCESS then (result, s1, b1) else
      case get_uint64_le_from_buffer b1 of Inl result \<Rightarrow> (result, s1, b1) | Inr (v2, b2) \<Rightarrow>
      let s2 = s1\<lparr>flat_page_count := v2\<rparr>;
          result = ASSERT (flat_page_count s2 = 0) in
      if result \<noteq> UDS_SUCCESS then (result, s2, b2) else
      case get_uint64_le_from_buffer b2 of Inl result \<Rightarrow> (result, s2, b2) | Inr (v3, b3) \<Rightarrow>
      let s3 = s2\<lparr>root_origin := v3\<rparr> in
      case get_uint64_le_from_buffer b3 of Inl result \<Rightarrow> (result, s3, b3) | Inr (v4, b4) \<Rightarrow>
      let s4 = s3\<lparr>root_count := v4\<rparr>;
          decoded_size = initial_length - content_length b4
      in (ASSERT (unat (header_size BLOCK_MAP_HEADER_2_0) = decoded_size), s4, b4))"

definition encode_block_map_state_2_0 :: "block_map_state_2_0 \<Rightarrow> buffer \<Rightarrow> status \<times> buffer" where
  "encode_block_map_state_2_0 st b =
     (case encode_header BLOCK_MAP_HEADER_2_0 b of (result, b0) \<Rightarrow>
      if result \<noteq> UDS_SUCCESS then (result, b0) else
      let initial_length = content_length b0 in
      case put_uint64_le_into_buffer b0 (flat_page_origin st) of (result, b1) \<Rightarrow>
      if result \<noteq> UDS_SUCCESS then (result, b1) else
      case put_uint64_le_into_buffer b1 (flat_page_count st) of (result, b2) \<Rightarrow>
      if result \<noteq> UDS_SUCCESS then (result, b2) else
      case put_uint64_le_into_buffer b2 (root_origin st) of (result, b3) \<Rightarrow>
      if result \<noteq> UDS_SUCCESS then (result, b3) else
      case put_uint64_le_into_buffer b3 (root_count st) of (result, b4) \<Rightarrow>
      if result \<noteq> UDS_SUCCESS then (result, b4) else
      let encoded_size = content_length b4 - initial_length
      in (ASSERT (unat (header_size BLOCK_MAP_HEADER_2_0) = encoded_size), b4))"

definition valid_block_map_state :: "block_map_state_2_0 \<Rightarrow> bool" where
  "valid_block_map_state s \<longleftrightarrow>
     flat_page_origin s = BLOCK_MAP_FLAT_PAGE_ORIGIN \<and> flat_page_count s = 0"

section \<open>The buffered writer\<close>

text \<open>
  \<^verbatim>\<open>struct bufferedWriter\<close> of bufferedWriter.c. The buffer is the list of its
  \<open>bw_size\<close> bytes and \<open>bw_ptr\<close> is kept as its offset from \<open>bw_buf\<close>, the end of the
  written data. Sizes and offsets are natural numbers. The region (ioRegion.h, not among
  the sources) is any state \<open>'r\<close>, and \<^verbatim>\<open>writeToRegion\<close> is a parameter: from the region,
  the offset, the data, its size and the length to write it gives the status and the
  region afterwards.
\<close>

record 'r buffered_writer =
  bw_region :: 'r
  bw_pos :: nat
  bw_size :: nat
  bw_buf :: "byte list"
  bw_ptr :: nat
  bw_err :: status
  bw_used :: bool

type_synonym 'r write_to_region = "'r \<Rightarrow> nat \<Rightarrow> byte list \<Rightarrow> nat \<Rightarrow> nat \<Rightarrow> status \<times> 'r"

definition spaceUsedInBuffer :: "'r buffered_writer \<Rightarrow> nat" where
  "spaceUsedInBuffer bw = bw_ptr bw"

definition spaceRemainingInWriteBuffer :: "'r buffered_writer \<Rightarrow> nat" where
  "spaceRemainingInWriteBuffer bw = bw_size bw - spaceUsedInBuffer bw"

text \<open>\<^verbatim>\<open>memcpy\<close> and \<^verbatim>\<open>memset\<close> into the buffer at an offset.\<close>

definition store_bytes :: "byte list \<Rightarrow> nat \<Rightarrow> byte list \<Rightarrow> byte list" where
  "store_bytes buf at bytes = take at buf @ bytes @ drop (at + length bytes) buf"

definition flushBufferedWriter ::
  "'r write_to_region \<Rightarrow> 'r buffered_writer \<Rightarrow> status \<times> 'r buffered_writer" where
  "flushBufferedWriter writeToRegion bw =
     (if bw_err bw \<noteq> UDS_SUCCESS then (bw_err bw, bw)
      else
        let n = spaceUsedInBuffer bw in
        if n > 0 then
          let (result, region) =
                writeToRegion (bw_region bw) (bw_pos bw) (bw_buf bw) (bw_size bw) n;
              bw1 = bw\<lparr>bw_region := region\<rparr>
          in if result \<noteq> UDS_SUCCESS then (result, bw1\<lparr>bw_err := result\<rparr>)
             else (UDS_SUCCESS, bw1\<lparr>bw_ptr := 0, bw_pos := bw_pos bw1 + bw_size bw1\<rparr>)
        else (UDS_SUCCESS, bw))"

text \<open>
  The loops of \<^verbatim>\<open>writeZerosToBufferedWriter\<close> and \<^verbatim>\<open>writeToBufferedWriter\<close>. They need
  not end (a writer of size 0 never makes room), so they are partial: \<open>None\<close> is a call
  that does not return. In \<^verbatim>\<open>writeToBufferedWriter\<close> the status of the direct region write
  is a variable of the inner block that hides the function's \<^verbatim>\<open>result\<close>: after a failed
  direct write the error is stored in \<open>bw_err\<close> and the loop is left with the outer
  \<^verbatim>\<open>result\<close>. The division by a buffer size of 0 traps and is a \<open>None\<close>.
\<close>

partial_function (option) write_zeros_loop ::
  "'r write_to_region \<Rightarrow> 'r buffered_writer \<Rightarrow> nat \<Rightarrow> status \<Rightarrow>
     (status \<times> 'r buffered_writer) option" where
  "write_zeros_loop writeToRegion bw len result =
     (if len > 0 \<and> result = UDS_SUCCESS then
        let avail = spaceRemainingInWriteBuffer bw;
            chunk = min len avail;
            bw1 = bw\<lparr>bw_buf := store_bytes (bw_buf bw) (bw_ptr bw) (replicate chunk 0),
                     bw_ptr := bw_ptr bw + chunk\<rparr>;
            (result', bw2) =
              (if spaceRemainingInWriteBuffer bw1 = 0 then flushBufferedWriter writeToRegion bw1
               else (result, bw1))
        in write_zeros_loop writeToRegion bw2 (len - chunk) result'
      else Some (result, bw))"

definition writeZerosToBufferedWriter ::
  "'r write_to_region \<Rightarrow> 'r buffered_writer \<Rightarrow> nat \<Rightarrow> (status \<times> 'r buffered_writer) option" where
  "writeZerosToBufferedWriter writeToRegion bw len =
     (if bw_err bw \<noteq> UDS_SUCCESS then Some (bw_err bw, bw)
      else
        case write_zeros_loop writeToRegion bw len UDS_SUCCESS of
          None \<Rightarrow> None
        | Some (result, bw1) \<Rightarrow> Some (result, bw1\<lparr>bw_used := True\<rparr>))"

partial_function (option) write_loop ::
  "'r write_to_region \<Rightarrow> 'r buffered_writer \<Rightarrow> byte list \<Rightarrow> nat \<Rightarrow> status \<Rightarrow> bool \<Rightarrow>
     (status \<times> 'r buffered_writer) option" where
  "write_loop writeToRegion bw dp len result alwaysCopy =
     (if len > 0 \<and> result = UDS_SUCCESS then
        if len \<ge> bw_size bw \<and> \<not> alwaysCopy \<and> spaceUsedInBuffer bw = 0 then
          if bw_size bw = 0 then None
          else
            let n = len div bw_size bw * bw_size bw;
                (result2, region) = writeToRegion (bw_region bw) (bw_pos bw) (take n dp) n n;
                bw1 = bw\<lparr>bw_region := region\<rparr>
            in if result2 = UDS_INCORRECT_ALIGNMENT
               then write_loop writeToRegion bw1 dp len result True
               else if result2 \<noteq> UDS_SUCCESS
               then Some (result, bw1\<lparr>bw_err := result2\<rparr>)
               else write_loop writeToRegion (bw1\<lparr>bw_pos := bw_pos bw1 + n\<rparr>) (drop n dp)
                      (len - n) result alwaysCopy
        else
          let avail = spaceRemainingInWriteBuffer bw;
              chunk = min len avail;
              bw1 = bw\<lparr>bw_buf := store_bytes (bw_buf bw) (bw_ptr bw) (take chunk dp),
                       bw_ptr := bw_ptr bw + chunk\<rparr>;
              (result', bw2) =
                (if spaceRemainingInWriteBuffer bw1 = 0
                 then flushBufferedWriter writeToRegion bw1 else (result, bw1))
          in write_loop writeToRegion bw2 (drop chunk dp) (len - chunk) result' alwaysCopy
      else Some (result, bw))"

definition writeToBufferedWriter ::
  "'r write_to_region \<Rightarrow> 'r buffered_writer \<Rightarrow> byte list \<Rightarrow> nat \<Rightarrow>
     (status \<times> 'r buffered_writer) option" where
  "writeToBufferedWriter writeToRegion bw data len =
     (let alwaysCopy = False in
      if bw_err bw \<noteq> UDS_SUCCESS then Some (bw_err bw, bw)
      else
        case write_loop writeToRegion bw data len UDS_SUCCESS alwaysCopy of
          None \<Rightarrow> None
        | Some (result, bw1) \<Rightarrow> Some (result, bw1\<lparr>bw_used := True\<rparr>))"

section \<open>Request classification\<close>

text \<open>
  C3. The classifier rejects a request with the parameter error \<^verbatim>\<open>-EINVAL\<close> exactly when
  its operation is none of READ, WRITE, FLUSH, DISCARD; or it is a flush (operation FLUSH
  or pre-flush marker set) with a nonzero payload size; or it is a READ, WRITE or DISCARD
  without the pre-flush marker and with payload size zero. Every other request is accepted
  with \<^verbatim>\<open>UDS_SUCCESS\<close>.
\<close>

theorem check_bio_validity_rejects_iff:
  "(check_bio_validity b = Num (- EINVAL) \<longleftrightarrow>
      bio_op b \<notin> {REQ_OP_READ, REQ_OP_WRITE, REQ_OP_FLUSH, REQ_OP_DISCARD} \<or>
      ((bio_op b = REQ_OP_FLUSH \<or> bi_opf b AND REQ_PREFLUSH \<noteq> 0) \<and> bi_size b \<noteq> 0) \<or>
      (bio_op b \<in> {REQ_OP_READ, REQ_OP_WRITE, REQ_OP_DISCARD} \<and>
         bi_opf b AND REQ_PREFLUSH = 0 \<and> bi_size b = 0)) \<and>
   (check_bio_validity b \<noteq> Num (- EINVAL) \<longrightarrow> check_bio_validity b = UDS_SUCCESS)"
  by (auto simp: check_bio_validity_def ASSERT_WITH_ERROR_CODE_def UDS_SUCCESS_def EINVAL_def
        REQ_OP_READ_def REQ_OP_WRITE_def REQ_OP_FLUSH_def REQ_OP_DISCARD_def)

theorem check_bio_validity_rejects_iff_witness:
  "check_bio_validity \<lparr>bi_opf = 1, bi_size = 0, bi_sector = 0\<rparr> = Num (- EINVAL) \<and>
   check_bio_validity \<lparr>bi_opf = 1, bi_size = 4096, bi_sector = 0\<rparr> = UDS_SUCCESS \<and>
   check_bio_validity \<lparr>bi_opf = 2, bi_size = 0, bi_sector = 0\<rparr> = UDS_SUCCESS \<and>
   check_bio_validity \<lparr>bi_opf = 7, bi_size = 4096, bi_sector = 0\<rparr> = Num (- EINVAL)"
  using check_bio_validity_rejects_iff [of "\<lparr>bi_opf = 1, bi_size = 0, bi_sector = 0\<rparr>"]
    check_bio_validity_rejects_iff [of "\<lparr>bi_opf = 1, bi_size = 4096, bi_sector = 0\<rparr>"]
    check_bio_validity_rejects_iff [of "\<lparr>bi_opf = 2, bi_size = 0, bi_sector = 0\<rparr>"]
    check_bio_validity_rejects_iff [of "\<lparr>bi_opf = 7, bi_size = 4096, bi_sector = 0\<rparr>"]
  by (simp add: bio_op_def REQ_OP_MASK_def REQ_PREFLUSH_def REQ_OP_READ_def REQ_OP_WRITE_def
        REQ_OP_FLUSH_def REQ_OP_DISCARD_def)

section \<open>Admission does not consult the lifecycle state\<close>

lemma emit_state: "emit ev (layer\<lparr>state := s\<rparr>) = (emit ev layer)\<lparr>state := s\<rparr>"
  by (simp add: emit_def)

lemma set_limiter_state:
  "set_limiter lid lim (layer\<lparr>state := s\<rparr>) = (set_limiter lid lim layer)\<lparr>state := s\<rparr>"
  by (cases lid) (simp_all add: set_limiter_def)

lemma get_limiter_state: "get_limiter lid (layer\<lparr>state := s\<rparr>) = get_limiter lid layer"
  by (cases lid) (simp_all add: get_limiter_def)

lemma do_limiter_poll_state:
  "do_limiter_poll lid (layer\<lparr>state := s\<rparr>) =
     (fst (do_limiter_poll lid layer), (snd (do_limiter_poll lid layer))\<lparr>state := s\<rparr>)"
  by (simp add: do_limiter_poll_def get_limiter_state set_limiter_state emit_state
        split: prod.splits)

lemma do_limiter_wait_for_one_free_state:
  "do_limiter_wait_for_one_free lid (layer\<lparr>state := s\<rparr>) =
     (do_limiter_wait_for_one_free lid layer)\<lparr>state := s\<rparr>"
  by (simp add: do_limiter_wait_for_one_free_def get_limiter_state set_limiter_state emit_state
        split: prod.splits)

lemma kvdo_launch_state:
  "kvdo_launch_data_kvio_from_bio e (layer\<lparr>state := s\<rparr>) b t p =
     (fst (kvdo_launch_data_kvio_from_bio e layer b t p),
      (snd (kvdo_launch_data_kvio_from_bio e layer b t p))\<lparr>state := s\<rparr>)"
  by (simp add: kvdo_launch_data_kvio_from_bio_def emit_state)

lemma push_state:
  "(layer\<lparr>state := s\<rparr>)\<lparr>biosIn := x\<rparr> = (layer\<lparr>biosIn := x\<rparr>)\<lparr>state := s\<rparr>"
  "(layer\<lparr>state := s\<rparr>)\<lparr>deadlock_queue := q\<rparr> = (layer\<lparr>deadlock_queue := q\<rparr>)\<lparr>state := s\<rparr>"
  "(layer\<lparr>state := s\<rparr>)\<lparr>biosAcknowledged := y, flushOut := z\<rparr> =
     (layer\<lparr>biosAcknowledged := y, flushOut := z\<rparr>)\<lparr>state := s\<rparr>"
  by simp_all

lemma launch_from_vdo_thread_state:
  "launch_data_kvio_from_vdo_thread e (layer\<lparr>state := s\<rparr>) b t =
     (fst (launch_data_kvio_from_vdo_thread e layer b t),
      (snd (launch_data_kvio_from_vdo_thread e layer b t))\<lparr>state := s\<rparr>)"
  by (simp add: launch_data_kvio_from_vdo_thread_def do_limiter_poll_state kvdo_launch_state
        push_state Let_def case_prod_beta del: kernel_layer.update_convs)

text \<open>
  C2 (as the code has it). \<^verbatim>\<open>kvdo_map_bio\<close> checks the state with a log-only assertion
  and goes on: whatever the state field holds, the status returned and every effect on the
  layer are those of the same call on the same layer in any other state. In particular a
  request submitted while the layer is not RUNNING is processed exactly as it would be
  when RUNNING; it is not rejected for the state.
\<close>

theorem kvdo_map_bio_ignores_state:
  "kvdo_map_bio e (layer\<lparr>state := s\<rparr>) b =
     (fst (kvdo_map_bio e layer b), (snd (kvdo_map_bio e layer b))\<lparr>state := s\<rparr>)"
proof -
  have own: "on_own_work_queue e (layer\<lparr>state := s\<rparr>) = on_own_work_queue e layer"
    by (simp add: on_own_work_queue_def split: option.splits)
  have a: "biosIn (layer\<lparr>state := s\<rparr>) = biosIn layer"
    by simp
  show ?thesis
    unfolding kvdo_map_bio_def Let_def own a case_prod_beta
    by (simp add: push_state emit_state launch_from_vdo_thread_state
          do_limiter_wait_for_one_free_state kvdo_launch_state)
qed

theorem kvdo_map_bio_ignores_state_witness:
  "kvdo_map_bio example_env (example_layer\<lparr>state := LAYER_STOPPED\<rparr>) write_bio =
     (fst (kvdo_map_bio example_env example_layer write_bio),
      (snd (kvdo_map_bio example_env example_layer write_bio))\<lparr>state := LAYER_STOPPED\<rparr>)"
  using kvdo_map_bio_ignores_state
    [where e = example_env and layer = example_layer and s = LAYER_STOPPED and b = write_bio]
  by simp

text \<open>
  The claim as stated fails: on a SUSPENDED layer a 4 KiB write submitted from a thread
  that is not one of the layer's own is admitted through the request limiter, launched
  into the engine and answered with \<^verbatim>\<open>DM_MAPIO_SUBMITTED\<close>.
\<close>

theorem kvdo_map_bio_admits_when_suspended:
  "state (example_layer\<lparr>state := LAYER_SUSPENDED\<rparr>) \<noteq> LAYER_RUNNING \<and>
   fst (kvdo_map_bio example_env (example_layer\<lparr>state := LAYER_SUSPENDED\<rparr>) write_bio) =
     DM_MAPIO_SUBMITTED \<and>
   trace (snd (kvdo_map_bio example_env (example_layer\<lparr>state := LAYER_SUSPENDED\<rparr>) write_bio)) =
     [Limiter_wait_for_one_free Request_limiter False,
      Kvdo_launch_data_kvio_from_bio write_bio 1000 False]"
  by (simp add: kvdo_map_bio_def example_layer_def example_env_def write_bio_def
        check_bio_validity_def bio_op_def REQ_OP_MASK_def REQ_OP_READ_def REQ_OP_WRITE_def
        REQ_OP_FLUSH_def REQ_OP_DISCARD_def REQ_PREFLUSH_def ASSERT_WITH_ERROR_CODE_def
        UDS_SUCCESS_def VDO_SUCCESS_def DM_MAPIO_SUBMITTED_def on_own_work_queue_def
        do_limiter_wait_for_one_free_def limiter_wait_for_one_free_def get_limiter_def
        set_limiter_def emit_def kvdo_launch_data_kvio_from_bio_def Let_def)

section \<open>Immutable configuration fields\<close>

text \<open>
  C7. When the proposed configuration differs from the current one in an immutable field
  (starting sector, parent device name, logical block size, cache size, block map maximum
  age, md-raid5 mode or thread counts), \<^verbatim>\<open>prepare_to_modify_kernel_layer\<close> returns
  \<^verbatim>\<open>VDO_PARAMETER_MISMATCH\<close> and the layer is exactly as before: its state is unchanged
  and no resize preparation was requested from the engine (the trace has no new call).
\<close>

theorem prepare_to_modify_rejects_immutable_change:
  assumes "immutable_fields_differ config (device_config layer)"
  shows "fst (prepare_to_modify_kernel_layer e layer config) = VDO_PARAMETER_MISMATCH \<and>
         snd (snd (prepare_to_modify_kernel_layer e layer config)) = layer"
    (is ?P)
proof -
  let ?x = "device_config layer"
  note d = prepare_to_modify_kernel_layer_def Let_def
  have 1: "ti_begin (owning_target config) \<noteq> ti_begin (owning_target ?x) \<Longrightarrow> ?P"
    by (simp add: d)
  have 2: "parent_device_name config \<noteq> parent_device_name ?x \<Longrightarrow> ?P"
    by (cases "ti_begin (owning_target config) \<noteq> ti_begin (owning_target ?x)")
       (simp_all add: d)
  have 3: "logical_block_size config \<noteq> logical_block_size ?x \<Longrightarrow> ?P"
    using 1 2 by (cases "ti_begin (owning_target config) \<noteq> ti_begin (owning_target ?x)";
      cases "parent_device_name config \<noteq> parent_device_name ?x") (simp_all add: d)
  have 4: "cache_size config \<noteq> cache_size ?x \<Longrightarrow> ?P"
    using 1 2 3 by (cases "logical_block_size config \<noteq> logical_block_size ?x";
      cases "ti_begin (owning_target config) \<noteq> ti_begin (owning_target ?x)";
      cases "parent_device_name config \<noteq> parent_device_name ?x") (simp_all add: d)
  have 5: "block_map_maximum_age config \<noteq> block_map_maximum_age ?x \<Longrightarrow> ?P"
    using 1 2 3 4 by (cases "cache_size config \<noteq> cache_size ?x";
      cases "logical_block_size config \<noteq> logical_block_size ?x";
      cases "ti_begin (owning_target config) \<noteq> ti_begin (owning_target ?x)";
      cases "parent_device_name config \<noteq> parent_device_name ?x") (simp_all add: d)
  have 6: "md_raid5_mode_enabled config \<noteq> md_raid5_mode_enabled ?x \<Longrightarrow> ?P"
    using 1 2 3 4 5 by (cases "block_map_maximum_age config \<noteq> block_map_maximum_age ?x";
      cases "cache_size config \<noteq> cache_size ?x";
      cases "logical_block_size config \<noteq> logical_block_size ?x";
      cases "ti_begin (owning_target config) \<noteq> ti_begin (owning_target ?x)";
      cases "parent_device_name config \<noteq> parent_device_name ?x") (simp_all add: d)
  have 7: "thread_counts config \<noteq> thread_counts ?x \<Longrightarrow> ?P"
    using 1 2 3 4 5 6
    by (cases "md_raid5_mode_enabled config \<noteq> md_raid5_mode_enabled ?x";
      cases "block_map_maximum_age config \<noteq> block_map_maximum_age ?x";
      cases "cache_size config \<noteq> cache_size ?x";
      cases "logical_block_size config \<noteq> logical_block_size ?x";
      cases "ti_begin (owning_target config) \<noteq> ti_begin (owning_target ?x)";
      cases "parent_device_name config \<noteq> parent_device_name ?x") (simp_all add: d)
  from assms show ?thesis
    unfolding immutable_fields_differ_def using 1 2 3 4 5 6 7 by blast
qed

theorem prepare_to_modify_rejects_immutable_change_witness:
  "immutable_fields_differ (example_config\<lparr>logical_block_size := 512\<rparr>)
     (device_config example_layer) \<and>
   fst (prepare_to_modify_kernel_layer example_env example_layer
          (example_config\<lparr>logical_block_size := 512\<rparr>)) = VDO_PARAMETER_MISMATCH \<and>
   snd (snd (prepare_to_modify_kernel_layer example_env example_layer
          (example_config\<lparr>logical_block_size := 512\<rparr>))) = example_layer"
  using prepare_to_modify_rejects_immutable_change
    [where config = "example_config\<lparr>logical_block_size := 512\<rparr>" and layer = example_layer
       and e = example_env]
  by (simp add: immutable_fields_differ_def example_layer_def example_config_def)

section \<open>Suspend and resume at the target state\<close>

text \<open>
  C9. \<^verbatim>\<open>suspend_kernel_layer\<close> on a SUSPENDED layer and \<^verbatim>\<open>resume_kernel_layer\<close> on a
  RUNNING layer return \<^verbatim>\<open>VDO_SUCCESS\<close> and leave the layer exactly as it was: no flush,
  no engine or dedupe-index call (the trace is unchanged), same state, same fields.
\<close>

theorem suspend_resume_idempotent:
  "(state layer = LAYER_SUSPENDED \<longrightarrow> suspend_kernel_layer e layer = (VDO_SUCCESS, layer)) \<and>
   (state layer = LAYER_RUNNING \<longrightarrow> resume_kernel_layer e layer = (VDO_SUCCESS, layer))"
proof (intro conjI impI)
  assume "state layer = LAYER_SUSPENDED"
  then show "suspend_kernel_layer e layer = (VDO_SUCCESS, layer)"
    by (simp add: suspend_kernel_layer_def)
next
  assume "state layer = LAYER_RUNNING"
  then show "resume_kernel_layer e layer = (VDO_SUCCESS, layer)"
    by (simp add: resume_kernel_layer_def)
qed

theorem suspend_resume_idempotent_witness:
  "suspend_kernel_layer example_env (example_layer\<lparr>state := LAYER_SUSPENDED\<rparr>) =
     (VDO_SUCCESS, example_layer\<lparr>state := LAYER_SUSPENDED\<rparr>) \<and>
   resume_kernel_layer example_env example_layer = (VDO_SUCCESS, example_layer)"
  using suspend_resume_idempotent
      [where layer = "example_layer\<lparr>state := LAYER_SUSPENDED\<rparr>" and e = example_env]
    suspend_resume_idempotent [where layer = example_layer and e = example_env]
  by (simp add: example_layer_def)

section \<open>The deadlock queue's arrival time\<close>

text \<open>
  C6 (as the code has it). The arrival time of the queue is stored by a push onto an empty
  queue and is not updated by a push onto a non-empty queue. \<^verbatim>\<open>poll_deadlock_queue\<close>
  never writes it: after any pop, also the one that empties the queue, the stored arrival
  time is what it was before.
\<close>

theorem deadlock_queue_arrival_time:
  "(bio_list queue = [] \<longrightarrow> arrival_time (add_to_deadlock_queue queue b t) = t) \<and>
   (bio_list queue \<noteq> [] \<longrightarrow>
      arrival_time (add_to_deadlock_queue queue b t) = arrival_time queue) \<and>
   arrival_time (snd (snd (poll_deadlock_queue queue a))) = arrival_time queue"
  by (cases "bio_list queue") (simp_all add: add_to_deadlock_queue_def poll_deadlock_queue_def)

theorem deadlock_queue_arrival_time_witness:
  "arrival_time (add_to_deadlock_queue \<lparr>bio_list = [], arrival_time = 0\<rparr> write_bio 7) = 7 \<and>
   arrival_time (add_to_deadlock_queue \<lparr>bio_list = [discard_bio], arrival_time = 7\<rparr> write_bio 9) = 7 \<and>
   arrival_time (snd (snd (poll_deadlock_queue
      \<lparr>bio_list = [discard_bio, write_bio], arrival_time = 7\<rparr> 0))) = 7"
  using deadlock_queue_arrival_time
      [where queue = "\<lparr>bio_list = [], arrival_time = 0\<rparr>" and b = write_bio and t = 7]
    deadlock_queue_arrival_time
      [where queue = "\<lparr>bio_list = [discard_bio], arrival_time = 7\<rparr>" and b = write_bio and t = 9]
    deadlock_queue_arrival_time
      [where queue = "\<lparr>bio_list = [discard_bio, write_bio], arrival_time = 7\<rparr>" and a = 0]
  by simp

text \<open>
  The claim as stated fails: take the queue that holds one request and the arrival time 7
  and pop it. The request comes back with arrival time 7, the queue is empty, and its
  stored arrival time is still 7.
\<close>

theorem deadlock_queue_arrival_time_not_cleared:
  "fst (poll_deadlock_queue \<lparr>bio_list = [write_bio], arrival_time = 7\<rparr> 0) = Some write_bio \<and>
   fst (snd (poll_deadlock_queue \<lparr>bio_list = [write_bio], arrival_time = 7\<rparr> 0)) = 7 \<and>
   bio_list (snd (snd (poll_deadlock_queue \<lparr>bio_list = [write_bio], arrival_time = 7\<rparr> 0))) = [] \<and>
   arrival_time (snd (snd (poll_deadlock_queue \<lparr>bio_list = [write_bio], arrival_time = 7\<rparr> 0))) = 7"
  by (simp add: poll_deadlock_queue_def)

section \<open>Suspending a running layer\<close>

lemma trace_emit: "trace (emit ev layer) = trace layer @ [ev]"
  by (simp add: emit_def)

lemma wait_for_no_requests_active_trace:
  "trace (wait_for_no_requests_active layer) = trace layer @
     (if limiter_is_idle (request_limiter layer) then []
      else [Set_kvdo_compressing False, Limiter_wait_for_idle Request_limiter] @
           (if kvdo_compressing layer then [Set_kvdo_compressing True] else []))"
  by (simp add: wait_for_no_requests_active_def set_kvdo_compressing_def Let_def
        do_limiter_wait_for_idle_def get_limiter_def set_limiter_def emit_def)

lemma wait_for_no_requests_active_fields:
  "state (wait_for_no_requests_active layer) = state layer"
  "no_flush_suspend (wait_for_no_requests_active layer) = no_flush_suspend layer"
  "kvdo_compressing (wait_for_no_requests_active layer) = kvdo_compressing layer"
  by (simp_all add: wait_for_no_requests_active_def set_kvdo_compressing_def Let_def
        do_limiter_wait_for_idle_def get_limiter_def set_limiter_def emit_def)

text \<open>
  C4 (as the code has it). \<^verbatim>\<open>suspend_kernel_layer\<close> on a RUNNING layer makes these
  calls, in this order. Unless the request limiter is already idle: compression is turned
  off, the limiter is waited on until idle, and compression is turned on again iff it was
  on before; with an idle limiter neither the compression calls nor the wait happen. Then
  one synchronous write-preflush bio; if it failed, the error becomes \<^verbatim>\<open>-EIO\<close> and the
  engine is put into read-only mode with it. Then the engine is suspended, then the dedupe
  index with the save flag \<open>\<not> no_flush_suspend\<close>, and last the state becomes SUSPENDED.
  The compression flag ends as it began.
\<close>

theorem suspend_kernel_layer_running:
  assumes "state layer = LAYER_RUNNING"
  shows "trace (snd (suspend_kernel_layer e layer)) = trace layer @
     (if limiter_is_idle (request_limiter layer) then []
      else [Set_kvdo_compressing False, Limiter_wait_for_idle Request_limiter] @
           (if kvdo_compressing layer then [Set_kvdo_compressing True] else [])) @
     [Submit_bio_wait (REQ_OP_WRITE OR REQ_PREFLUSH)] @
     (if flush_errno e \<noteq> 0 then [Set_kvdo_read_only (Num (- EIO))] else []) @
     [Suspend_kvdo, Suspend_dedupe_index (\<not> no_flush_suspend layer),
      Atomic_store_state LAYER_SUSPENDED] \<and>
    state (snd (suspend_kernel_layer e layer)) = LAYER_SUSPENDED \<and>
    kvdo_compressing (snd (suspend_kernel_layer e layer)) = kvdo_compressing layer \<and>
    fst (suspend_kernel_layer e layer) =
      (if flush_errno e \<noteq> 0 then Num (- EIO) else suspend_kvdo_result e)"
  using assms
  by (simp add: suspend_kernel_layer_def synchronous_flush_def Let_def trace_emit
        wait_for_no_requests_active_trace wait_for_no_requests_active_fields
        set_kernel_layer_state_def VDO_SUCCESS_def EIO_def emit_def)

text \<open>
  The claim as stated fails where no request is active: the RUNNING example layer has an
  idle request limiter and compression on, and suspending it makes no compression call and
  no wait.
\<close>

theorem suspend_idle_skips_compression_toggle:
  "state example_layer = LAYER_RUNNING \<and> kvdo_compressing example_layer \<and>
   trace (snd (suspend_kernel_layer example_env example_layer)) =
     [Submit_bio_wait (REQ_OP_WRITE OR REQ_PREFLUSH), Suspend_kvdo, Suspend_dedupe_index True,
      Atomic_store_state LAYER_SUSPENDED]"
  by (simp add: suspend_kernel_layer_def synchronous_flush_def Let_def 
        wait_for_no_requests_active_def limiter_is_idle_def example_layer_def example_env_def
        set_kernel_layer_state_def VDO_SUCCESS_def EIO_def emit_def)

theorem suspend_kernel_layer_running_witness:
  "state (example_layer\<lparr>request_limiter := \<lparr>active = 3, limit = 2000\<rparr>\<rparr>) = LAYER_RUNNING \<and>
   trace (snd (suspend_kernel_layer (example_env\<lparr>flush_errno := - 5\<rparr>)
      (example_layer\<lparr>request_limiter := \<lparr>active = 3, limit = 2000\<rparr>\<rparr>))) =
     [Set_kvdo_compressing False, Limiter_wait_for_idle Request_limiter,
      Set_kvdo_compressing True, Submit_bio_wait (REQ_OP_WRITE OR REQ_PREFLUSH),
      Set_kvdo_read_only (Num (- EIO)), Suspend_kvdo, Suspend_dedupe_index True,
      Atomic_store_state LAYER_SUSPENDED] \<and>
   fst (suspend_kernel_layer (example_env\<lparr>flush_errno := - 5\<rparr>)
      (example_layer\<lparr>request_limiter := \<lparr>active = 3, limit = 2000\<rparr>\<rparr>)) = Num (- EIO)"
  using suspend_kernel_layer_running
      [where layer = "example_layer\<lparr>request_limiter := \<lparr>active = 3, limit = 2000\<rparr>\<rparr>"
      and e = "example_env\<lparr>flush_errno := - 5\<rparr>"]
  by (simp add: example_layer_def example_env_def limiter_is_idle_def)

section \<open>Reentrant submission\<close>

lemma valid_data_request_ops:
  "valid_data_request b \<Longrightarrow> bio_op b \<in> {REQ_OP_READ, REQ_OP_WRITE, REQ_OP_DISCARD}"
  by (auto simp: valid_data_request_def check_bio_validity_def EINVAL_def UDS_SUCCESS_def
        split: if_splits)

lemma limiter_full: "\<not> active lim < limit lim \<Longrightarrow> limiter_poll lim = (False, lim)"
  by (simp add: limiter_poll_def)

lemma map_bio_own_full:
  assumes "valid_data_request b" and "on_own_work_queue e layer"
    and "\<not> active (request_limiter layer) < limit (request_limiter layer)"
  shows "kvdo_map_bio e layer b =
     (DM_MAPIO_SUBMITTED,
      layer\<lparr>biosIn := count_bios (biosIn layer) b,
            trace := trace layer @ [Limiter_poll Request_limiter False],
            deadlock_queue := add_to_deadlock_queue (deadlock_queue layer) b (jiffies e)\<rparr>)"
  using assms
  by (simp add: valid_data_request_def kvdo_map_bio_def launch_data_kvio_from_vdo_thread_def
        do_limiter_poll_def get_limiter_def set_limiter_def limiter_full emit_def Let_def)

lemma map_bio_own_free:
  assumes "valid_data_request b" and "on_own_work_queue e layer"
    and "active (request_limiter layer) < limit (request_limiter layer)"
  shows "\<exists>has_permit polls. 
     trace (snd (kvdo_map_bio e layer b)) = trace layer @
       [Limiter_poll Request_limiter True] @ polls @ 
       [Kvdo_launch_data_kvio_from_bio b (jiffies e) has_permit] \<and>
     polls = (if bio_op b = REQ_OP_DISCARD then [Limiter_poll Discard_limiter has_permit] else []) \<and>
     has_permit = (bio_op b = REQ_OP_DISCARD \<and>
                   active (discard_limiter layer) < limit (discard_limiter layer))"
  using assms
  by (simp add: valid_data_request_def kvdo_map_bio_def launch_data_kvio_from_vdo_thread_def
        do_limiter_poll_def get_limiter_def set_limiter_def limiter_poll_def emit_def Let_def
        kvdo_launch_data_kvio_from_bio_def)

lemma map_bio_other:
  assumes "valid_data_request b" and "\<not> on_own_work_queue e layer"
  shows "trace (snd (kvdo_map_bio e layer b)) = trace layer @
       (if bio_op b = REQ_OP_DISCARD
        then [Limiter_wait_for_one_free Discard_limiter
                (\<not> active (discard_limiter layer) < limit (discard_limiter layer))]
        else []) @
       [Limiter_wait_for_one_free Request_limiter
          (\<not> active (request_limiter layer) < limit (request_limiter layer)),
        Kvdo_launch_data_kvio_from_bio b (jiffies e) (bio_op b = REQ_OP_DISCARD)]"
  using assms
  by (simp add: valid_data_request_def kvdo_map_bio_def 
        do_limiter_wait_for_one_free_def get_limiter_def set_limiter_def
        limiter_wait_for_one_free_def emit_def Let_def
        kvdo_launch_data_kvio_from_bio_def)

text \<open>
  C1. For a valid data request (READ, WRITE or DISCARD), \<^verbatim>\<open>kvdo_map_bio\<close> makes no call
  on which the thread may sleep if and only if the calling thread runs on a work queue
  owned by this layer. On that path the first call is the non-blocking poll of the request
  limiter; when the poll fails, the only call made is that poll, the request is added to
  the deadlock queue with the arrival time read at entry, and
  \<^verbatim>\<open>DM_MAPIO_SUBMITTED\<close> is returned.
\<close>

theorem kvdo_map_bio_reentrancy:
  assumes "valid_data_request b"
  shows "((\<forall>ev \<in> set (new_events layer (snd (kvdo_map_bio e layer b))). \<not> is_blocking_call ev)
            \<longleftrightarrow> on_own_work_queue e layer) \<and>
         (on_own_work_queue e layer \<longrightarrow>
            take 1 (new_events layer (snd (kvdo_map_bio e layer b))) =
              [Limiter_poll Request_limiter
                 (active (request_limiter layer) < limit (request_limiter layer))]) \<and>
         (on_own_work_queue e layer \<and>
          \<not> active (request_limiter layer) < limit (request_limiter layer) \<longrightarrow>
            fst (kvdo_map_bio e layer b) = DM_MAPIO_SUBMITTED \<and>
            new_events layer (snd (kvdo_map_bio e layer b)) = [Limiter_poll Request_limiter False] \<and>
            deadlock_queue (snd (kvdo_map_bio e layer b)) =
              add_to_deadlock_queue (deadlock_queue layer) b (jiffies e))"
proof (cases "on_own_work_queue e layer")
  case own: True
  show ?thesis
  proof (cases "active (request_limiter layer) < limit (request_limiter layer)")
    case True
    from map_bio_own_free [OF assms own True] 
    show ?thesis using own True
      by (auto simp: new_events_def is_blocking_call_def)
  next
    case False
    show ?thesis using own False
      by (simp add: map_bio_own_full [OF assms own False] new_events_def is_blocking_call_def)
  qed
next
  case False
  show ?thesis using False
    by (simp add: map_bio_other [OF assms False] new_events_def is_blocking_call_def)
qed


theorem kvdo_map_bio_reentrancy_witness:
  "valid_data_request write_bio \<and>
   on_own_work_queue (example_env\<lparr>current_work_queue := Some \<lparr>owner = 0\<rparr>\<rparr>)
     (example_layer\<lparr>request_limiter := \<lparr>active = 2000, limit = 2000\<rparr>\<rparr>) \<and>
   fst (kvdo_map_bio (example_env\<lparr>current_work_queue := Some \<lparr>owner = 0\<rparr>\<rparr>)
     (example_layer\<lparr>request_limiter := \<lparr>active = 2000, limit = 2000\<rparr>\<rparr>) write_bio) =
     DM_MAPIO_SUBMITTED \<and>
   deadlock_queue (snd (kvdo_map_bio (example_env\<lparr>current_work_queue := Some \<lparr>owner = 0\<rparr>\<rparr>)
     (example_layer\<lparr>request_limiter := \<lparr>active = 2000, limit = 2000\<rparr>\<rparr>) write_bio)) =
     \<lparr>bio_list = [write_bio], arrival_time = 1000\<rparr> \<and>
   new_events (example_layer\<lparr>request_limiter := \<lparr>active = 2000, limit = 2000\<rparr>\<rparr>)
     (snd (kvdo_map_bio (example_env\<lparr>current_work_queue := Some \<lparr>owner = 0\<rparr>\<rparr>)
       (example_layer\<lparr>request_limiter := \<lparr>active = 2000, limit = 2000\<rparr>\<rparr>) write_bio)) =
     [Limiter_poll Request_limiter False]"
proof -
  have v: "valid_data_request write_bio"
    by (simp add: valid_data_request_def write_bio_def check_bio_validity_def bio_op_def
          REQ_OP_MASK_def REQ_OP_READ_def REQ_OP_WRITE_def REQ_OP_FLUSH_def REQ_OP_DISCARD_def
          REQ_PREFLUSH_def ASSERT_WITH_ERROR_CODE_def)
  show ?thesis
    using v kvdo_map_bio_reentrancy [OF v,
      where e = "example_env\<lparr>current_work_queue := Some \<lparr>owner = 0\<rparr>\<rparr>"
        and layer = "example_layer\<lparr>request_limiter := \<lparr>active = 2000, limit = 2000\<rparr>\<rparr>"]
    by (simp add: example_env_def example_layer_def on_own_work_queue_def
          add_to_deadlock_queue_def)
qed

section \<open>Completing a batch\<close>

lemma relaunch_deferred_queue_update:
  "relaunch_deferred e (layer\<lparr>deadlock_queue := q\<rparr>) b t =
     (relaunch_deferred e layer b t)\<lparr>deadlock_queue := q\<rparr>"
  by (simp add: relaunch_deferred_def do_limiter_poll_def get_limiter_def set_limiter_def
        kvdo_launch_data_kvio_from_bio_def emit_def Let_def case_prod_beta)

lemma relaunch_deferred_fields:
  "deadlock_queue (relaunch_deferred e layer b t) = deadlock_queue layer"
  "request_limiter (relaunch_deferred e layer b t) = request_limiter layer"
  by (simp_all add: relaunch_deferred_def do_limiter_poll_def get_limiter_def set_limiter_def
        kvdo_launch_data_kvio_from_bio_def emit_def Let_def case_prod_beta)

lemma loop_step:
  assumes "count > 0" and "bio_list (deadlock_queue layer) = b # rest"
  shows "complete_many_loop e layer count =
     complete_many_loop e
       (relaunch_deferred e
          (layer\<lparr>deadlock_queue := (deadlock_queue layer)\<lparr>bio_list := rest\<rparr>\<rparr>) b
          (arrival_time (deadlock_queue layer)))
       (count - 1)"
  using assms
  by (subst complete_many_loop.simps)
     (simp add: poll_deadlock_queue_def relaunch_deferred_def Let_def case_prod_beta)

lemma loop_stop:
  assumes "count = 0 \<or> bio_list (deadlock_queue layer) = []"
  shows "complete_many_loop e layer count = (layer, count)"
  using assms
  by (subst complete_many_loop.simps) (auto simp: poll_deadlock_queue_def)

lemma loop_eq:
  "bio_list (deadlock_queue layer) = q \<Longrightarrow>
   complete_many_loop e layer count =
     (relaunch_all e
        (layer\<lparr>deadlock_queue :=
           (deadlock_queue layer)\<lparr>bio_list := drop (min (unat count) (length q)) q\<rparr>\<rparr>)
        (take (min (unat count) (length q)) q) (arrival_time (deadlock_queue layer)),
      count - of_nat (min (unat count) (length q)))"
proof (induction q arbitrary: layer count)
  case Nil
  then have "layer\<lparr>deadlock_queue := (deadlock_queue layer)\<lparr>bio_list := []\<rparr>\<rparr> = layer"
    by (metis deadlock_queue.surjective deadlock_queue.update_convs(1)
        kernel_layer.surjective kernel_layer.update_convs(5))
  with Nil show ?case by (simp add: loop_stop)
next
  case (Cons b rest)
  show ?case
  proof (cases "count = 0")
    case True
    have "layer\<lparr>deadlock_queue := (deadlock_queue layer)\<lparr>bio_list := b # rest\<rparr>\<rparr> = layer"
      using Cons.prems
      by (metis deadlock_queue.surjective deadlock_queue.update_convs(1)
        kernel_layer.surjective kernel_layer.update_convs(5))
    with True show ?thesis by (simp add: loop_stop)
  next
    case False
    then have pos: "count > 0" by (simp add: word_greater_zero_iff)
    let ?dq = "deadlock_queue layer"
    let ?l1 = "relaunch_deferred e (layer\<lparr>deadlock_queue := ?dq\<lparr>bio_list := rest\<rparr>\<rparr>) b
                 (arrival_time ?dq)"
    have u: "unat (count - 1) = unat count - 1" using False by (simp add: unat_minus_one)
    have upos: "unat count > 0" using False by (simp add: unat_gt_0)
    have m: "min (unat count) (Suc (length rest)) = Suc (min (unat (count - 1)) (length rest))"
      using u upos by auto
    have q1: "bio_list (deadlock_queue ?l1) = rest"
      by (simp add: relaunch_deferred_fields)
    have "complete_many_loop e layer count = complete_many_loop e ?l1 (count - 1)"
      by (rule loop_step [OF pos Cons.prems])
    also have "\<dots> =
      (relaunch_all e
        (?l1\<lparr>deadlock_queue :=
           (deadlock_queue ?l1)\<lparr>bio_list := drop (min (unat (count - 1)) (length rest)) rest\<rparr>\<rparr>)
        (take (min (unat (count - 1)) (length rest)) rest) (arrival_time (deadlock_queue ?l1)),
      count - 1 - of_nat (min (unat (count - 1)) (length rest)))"
      by (rule Cons.IH [OF q1])
    finally show ?thesis
      by (simp add: m relaunch_deferred_fields relaunch_deferred_queue_update)
  qed
qed

lemma launched_append: "launched (xs @ ys) = launched xs @ launched ys"
  by (induction xs rule: launched.induct) simp_all

lemma released_append: "released (xs @ ys) = released xs @ released ys"
  by (induction xs rule: released.induct) simp_all

lemma relaunch_deferred_trace:
  "\<exists>evs. trace (relaunch_deferred e layer b t) = trace layer @ evs \<and>
         launched evs = [b] \<and> released evs = []"
  by (simp add: relaunch_deferred_def do_limiter_poll_def get_limiter_def set_limiter_def
        kvdo_launch_data_kvio_from_bio_def emit_def Let_def case_prod_beta)

lemma relaunch_all_fields:
  "deadlock_queue (relaunch_all e layer bs t) = deadlock_queue layer \<and>
   request_limiter (relaunch_all e layer bs t) = request_limiter layer"
  by (induction bs arbitrary: layer) (simp_all add: relaunch_deferred_fields)

lemma relaunch_all_trace:
  "\<exists>evs. trace (relaunch_all e layer bs t) = trace layer @ evs \<and>
         launched evs = bs \<and> released evs = []"
proof (induction bs arbitrary: layer)
  case Nil
  show ?case by simp
next
  case (Cons b bs)
  obtain evs1 where 1: "trace (relaunch_deferred e layer b t) = trace layer @ evs1"
      "launched evs1 = [b]" "released evs1 = []"
    using relaunch_deferred_trace by blast
  obtain evs2 where 2: "trace (relaunch_all e (relaunch_deferred e layer b t) bs t) =
      trace (relaunch_deferred e layer b t) @ evs2" "launched evs2 = bs" "released evs2 = []"
    using Cons.IH by blast
  have "trace (relaunch_all e layer (b # bs) t) = trace layer @ (evs1 @ evs2)"
    using 1 2 by simp
  moreover have "launched (evs1 @ evs2) = b # bs" "released (evs1 @ evs2) = []"
    using 1 2 by (simp_all add: launched_append released_append)
  ultimately show ?case by blast
qed

lemma unat_sub_of_nat:
  fixes count :: "32 word"
  assumes "k \<le> unat count"
  shows "unat (count - of_nat k) = unat count - k"
proof -
  have k: "unat (of_nat k :: 32 word) = k" using assms by (rule le_unat_uoi)
  then have "(of_nat k :: 32 word) \<le> count" using assms by (simp add: word_le_nat_alt)
  then show ?thesis using k by (simp add: unat_sub)
qed

lemma complete_many_requests_eq:
  "complete_many_requests e layer count = complete_batch_spec e layer (unat count)"
proof -
  let ?q = "bio_list (deadlock_queue layer)"
  let ?k = "min (unat count) (length ?q)"
  have u: "unat (count - of_nat ?k) = unat count - ?k"
    by (rule unat_sub_of_nat) simp
  have pos: "(count - of_nat ?k > 0) = (unat count - ?k > 0)"
    using u by (simp add: word_greater_zero_iff unat_gt_0 flip: u)
  show ?thesis
    unfolding complete_many_requests_def complete_batch_spec_def Let_def
    by (simp only: loop_eq [OF refl] prod.case u pos)
qed

text \<open>
  C5. \<^verbatim>\<open>complete_many_requests\<close> with count \<open>n\<close> does what the specification's
  completion path says: it pops the first \<open>min n (queue length)\<close> deferred requests and
  relaunches them in queue order, each discard with a best-effort poll of the discard
  limiter, and then releases \<open>n\<close> minus the number popped to the request limiter in one
  \<^verbatim>\<open>limiter_release_many\<close> call when that is positive (no call otherwise). The
  relaunched requests take no request permit: the outstanding count drops by exactly the
  number released.
\<close>

theorem complete_many_requests_batch:
  "complete_many_requests e layer count = complete_batch_spec e layer (unat count) \<and>
   bio_list (deadlock_queue (complete_many_requests e layer count)) =
     drop (min (unat count) (length (bio_list (deadlock_queue layer))))
       (bio_list (deadlock_queue layer)) \<and>
   launched (new_events layer (complete_many_requests e layer count)) =
     take (min (unat count) (length (bio_list (deadlock_queue layer))))
       (bio_list (deadlock_queue layer)) \<and>
   released (new_events layer (complete_many_requests e layer count)) =
     (if unat count > length (bio_list (deadlock_queue layer))
      then [unat count - length (bio_list (deadlock_queue layer))] else []) \<and>
   active (request_limiter (complete_many_requests e layer count)) =
     active (request_limiter layer) - (unat count - length (bio_list (deadlock_queue layer)))"
proof -
  let ?q = "bio_list (deadlock_queue layer)"
  let ?k = "min (unat count) (length ?q)"
  let ?l1 = "layer\<lparr>deadlock_queue := (deadlock_queue layer)\<lparr>bio_list := drop ?k ?q\<rparr>\<rparr>"
  let ?l2 = "relaunch_all e ?l1 (take ?k ?q) (arrival_time (deadlock_queue layer))"
  obtain evs where evs: "trace ?l2 = trace layer @ evs" "launched evs = take ?k ?q"
      "released evs = []"
    using relaunch_all_trace [of e ?l1 "take ?k ?q"] by auto
  have f: "deadlock_queue ?l2 = (deadlock_queue layer)\<lparr>bio_list := drop ?k ?q\<rparr>"
      "request_limiter ?l2 = request_limiter layer"
    using relaunch_all_fields [of e ?l1 "take ?k ?q"] by simp_all
  have nk: "unat count - ?k = unat count - length ?q" by simp
  have b: "complete_batch_spec e layer (unat count) =
      (if unat count - ?k > 0 then do_limiter_release_many Request_limiter (unat count - ?k) ?l2
       else ?l2)"
    by (simp add: complete_batch_spec_def Let_def)
  show ?thesis
  proof (cases "unat count > length ?q")
    case True
    then show ?thesis
      unfolding complete_many_requests_eq b
      using evs f
      by (simp add: do_limiter_release_many_def get_limiter_def set_limiter_def emit_def
            limiter_release_many_def new_events_def launched_append released_append)
  next
    case False
    then show ?thesis
      unfolding complete_many_requests_eq b
      using evs f
      by (simp add: new_events_def)
  qed
qed

theorem complete_many_requests_batch_witness:
  "bio_list (deadlock_queue (complete_many_requests example_env
      (example_layer\<lparr>request_limiter := \<lparr>active = 2000, limit = 2000\<rparr>,
         deadlock_queue := \<lparr>bio_list = [write_bio, discard_bio], arrival_time = 7\<rparr>\<rparr>) 3)) = [] \<and>
   launched (new_events
      (example_layer\<lparr>request_limiter := \<lparr>active = 2000, limit = 2000\<rparr>,
         deadlock_queue := \<lparr>bio_list = [write_bio, discard_bio], arrival_time = 7\<rparr>\<rparr>)
      (complete_many_requests example_env
        (example_layer\<lparr>request_limiter := \<lparr>active = 2000, limit = 2000\<rparr>,
           deadlock_queue := \<lparr>bio_list = [write_bio, discard_bio], arrival_time = 7\<rparr>\<rparr>) 3)) =
     [write_bio, discard_bio] \<and>
   released (new_events
      (example_layer\<lparr>request_limiter := \<lparr>active = 2000, limit = 2000\<rparr>,
         deadlock_queue := \<lparr>bio_list = [write_bio, discard_bio], arrival_time = 7\<rparr>\<rparr>)
      (complete_many_requests example_env
        (example_layer\<lparr>request_limiter := \<lparr>active = 2000, limit = 2000\<rparr>,
           deadlock_queue := \<lparr>bio_list = [write_bio, discard_bio], arrival_time = 7\<rparr>\<rparr>) 3)) = [1] \<and>
   active (request_limiter (complete_many_requests example_env
      (example_layer\<lparr>request_limiter := \<lparr>active = 2000, limit = 2000\<rparr>,
         deadlock_queue := \<lparr>bio_list = [write_bio, discard_bio], arrival_time = 7\<rparr>\<rparr>) 3)) = 1999"
  using complete_many_requests_batch [where e = example_env and count = 3
      and layer = "example_layer\<lparr>request_limiter := \<lparr>active = 2000, limit = 2000\<rparr>,
         deadlock_queue := \<lparr>bio_list = [write_bio, discard_bio], arrival_time = 7\<rparr>\<rparr>"]
  by (simp add: example_layer_def, elim conjE, simp)

section \<open>Block map state round trip\<close>

lemma length_le_encode [simp]: "length (le_encode n v) = n"
  by (induction n arbitrary: v) simp_all

lemma le_decode_encode: "le_decode (le_encode n v) = v mod 256 ^ n"
proof (induction n arbitrary: v)
  case 0
  show ?case by simp
next
  case (Suc n)
  have "unat (of_nat (v mod 256) :: byte) = v mod 256"
    by (simp add: unat_of_nat)
  then show ?case
    by (simp add: Suc.IH mod_mult2_eq)
qed

lemma le_roundtrip32: "(of_nat (le_decode (le_encode 4 (unat (w :: 32 word)))) :: 32 word) = w"
proof -
  have "unat w < 256 ^ 4" using unsigned_less [of w, where ?'a = nat] by simp
  then show ?thesis by (simp add: le_decode_encode)
qed

lemma le_roundtrip64: "(of_nat (le_decode (le_encode 8 (unat (w :: 64 word)))) :: 64 word) = w"
proof -
  have "unat w < 256 ^ 8" using unsigned_less [of w, where ?'a = nat] by simp
  then show ?thesis by (simp add: le_decode_encode)
qed

lemma get_put_uint32:
  "get_uint32_le_from_buffer \<lparr>content = le_encode 4 (unat w) @ rest, space = sp\<rparr> =
     Inr (w, \<lparr>content = rest, space = sp\<rparr>)"
  by (simp add: get_uint32_le_from_buffer_def get_bytes_def content_length_def le_roundtrip32)

lemma get_put_uint64:
  "get_uint64_le_from_buffer \<lparr>content = le_encode 8 (unat w) @ rest, space = sp\<rparr> =
     Inr (w, \<lparr>content = rest, space = sp\<rparr>)"
  by (simp add: get_uint64_le_from_buffer_def get_bytes_def content_length_def le_roundtrip64)

lemma encode_result:
  assumes "52 \<le> sp"
  shows "encode_block_map_state_2_0 s \<lparr>content = [], space = sp\<rparr> =
     (VDO_SUCCESS,
      \<lparr>content = le_encode 4 (unat BLOCK_MAP) @ le_encode 4 2 @ le_encode 4 0 @
         le_encode 8 32 @ le_encode 8 (unat (flat_page_origin s)) @
         le_encode 8 (unat (flat_page_count s)) @ le_encode 8 (unat (root_origin s)) @
         le_encode 8 (unat (root_count s)),
       space = sp - 52\<rparr>)"
  using assms
  by (simp add: encode_block_map_state_2_0_def encode_header_def BLOCK_MAP_HEADER_2_0_def
        put_uint32_le_into_buffer_def put_uint64_le_into_buffer_def put_bytes_def
        content_length_def sizeof_block_map_state_2_0_def ASSERT_def UDS_SUCCESS_def
        VDO_SUCCESS_def Let_def del: le_encode.simps) arith

lemma get_uint32_encoded:
  assumes "n < 2 ^ 32"
  shows "get_uint32_le_from_buffer \<lparr>content = le_encode 4 n @ rest, space = sp\<rparr> =
     Inr (of_nat n, \<lparr>content = rest, space = sp\<rparr>)"
  using assms
  by (simp add: get_uint32_le_from_buffer_def get_bytes_def content_length_def le_decode_encode
        del: le_encode.simps)

lemma get_uint64_encoded:
  assumes "n < 2 ^ 64"
  shows "get_uint64_le_from_buffer \<lparr>content = le_encode 8 n @ rest, space = sp\<rparr> =
     Inr (of_nat n, \<lparr>content = rest, space = sp\<rparr>)"
  using assms
  by (simp add: get_uint64_le_from_buffer_def get_bytes_def content_length_def le_decode_encode
        del: le_encode.simps)

lemma decode_encoded:
  "decode_block_map_state_2_0
     \<lparr>content = le_encode 4 (unat BLOCK_MAP) @ le_encode 4 2 @ le_encode 4 0 @
         le_encode 8 32 @ le_encode 8 (unat (flat_page_origin s)) @
         le_encode 8 (unat (flat_page_count s)) @ le_encode 8 (unat (root_origin s)) @
         le_encode 8 (unat (root_count s)),
       space = sp\<rparr> st =
     (if flat_page_origin s \<noteq> BLOCK_MAP_FLAT_PAGE_ORIGIN
      then (UDS_ASSERTION_FAILED, st\<lparr>flat_page_origin := flat_page_origin s\<rparr>,
            \<lparr>content = le_encode 8 (unat (flat_page_count s)) @
               le_encode 8 (unat (root_origin s)) @ le_encode 8 (unat (root_count s)),
             space = sp\<rparr>)
      else if flat_page_count s \<noteq> 0
      then (UDS_ASSERTION_FAILED,
            st\<lparr>flat_page_origin := flat_page_origin s, flat_page_count := flat_page_count s\<rparr>,
            \<lparr>content = le_encode 8 (unat (root_origin s)) @ le_encode 8 (unat (root_count s)),
             space = sp\<rparr>)
      else (VDO_SUCCESS, s, \<lparr>content = [], space = sp\<rparr>))"
proof -
  have hdr: "decode_header
     \<lparr>content = le_encode 4 (unat BLOCK_MAP) @ le_encode 4 2 @ le_encode 4 0 @
         le_encode 8 32 @ rest, space = sp\<rparr> =
     Inr (BLOCK_MAP_HEADER_2_0, \<lparr>content = rest, space = sp\<rparr>)" for rest
    by (simp add: decode_header_def get_put_uint32 get_uint32_encoded get_uint64_encoded
          BLOCK_MAP_HEADER_2_0_def sizeof_block_map_state_2_0_def del: le_encode.simps)
  have eq: "st\<lparr>flat_page_origin := a, flat_page_count := c,
              root_origin := root_origin s, root_count := root_count s\<rparr> = s"
    if "flat_page_origin s = a" and "flat_page_count s = c" for a c
    using that by (cases s, cases st) simp
  have last: "get_uint64_le_from_buffer \<lparr>content = le_encode 8 (unat w), space = sp\<rparr> =
      Inr (w, \<lparr>content = [], space = sp\<rparr>)" for w
    using get_put_uint64 [where rest = "[]"] by simp
  have sz: "unat (header_size BLOCK_MAP_HEADER_2_0) = 32"
    by (simp add: BLOCK_MAP_HEADER_2_0_def sizeof_block_map_state_2_0_def)
  show ?thesis
    by (simp add: decode_block_map_state_2_0_def hdr validate_header_def get_put_uint64
          content_length_def ASSERT_def UDS_SUCCESS_def VDO_SUCCESS_def Let_def eq sz last
          del: le_encode.simps)
qed

lemma validate_header_success:
  "validate_header expected actual True = VDO_SUCCESS \<Longrightarrow> header_size actual = header_size expected"
  by (auto simp: validate_header_def VDO_SUCCESS_def split: if_splits)

lemma decode_block_map_state_accepts:
  assumes "fst (decode_block_map_state_2_0 b st) = VDO_SUCCESS"
  shows "flat_page_origin (fst (snd (decode_block_map_state_2_0 b st))) =
           BLOCK_MAP_FLAT_PAGE_ORIGIN \<and>
         flat_page_count (fst (snd (decode_block_map_state_2_0 b st))) = 0 \<and>
         (\<exists>hdr b0. decode_header b = Inr (hdr, b0) \<and>
            unat (header_size hdr) =
              content_length b0 - content_length (snd (snd (decode_block_map_state_2_0 b st))))"
proof -
  have neq: "UDS_BUFFER_ERROR \<noteq> VDO_SUCCESS" "UDS_ASSERTION_FAILED \<noteq> VDO_SUCCESS"
    by (simp_all add: VDO_SUCCESS_def)
  have get_err: "get_uint64_le_from_buffer x \<noteq> Inl VDO_SUCCESS" for x
    by (simp add: get_uint64_le_from_buffer_def get_bytes_def VDO_SUCCESS_def)
  have get_err32: "get_uint32_le_from_buffer x \<noteq> Inl VDO_SUCCESS" for x
    by (simp add: get_uint32_le_from_buffer_def get_bytes_def VDO_SUCCESS_def)
  have hdr_err: "decode_header x \<noteq> Inl VDO_SUCCESS" for x
    by (auto simp: decode_header_def split: sum.splits) (metis get_err get_err32)+
  note defs = decode_block_map_state_2_0_def Let_def
  obtain hdr b0 where h: "decode_header b = Inr (hdr, b0)"
  proof (cases "decode_header b")
    case (Inl err)
    then have "fst (decode_block_map_state_2_0 b st) = err" by (simp add: defs)
    with assms Inl hdr_err [of b] show ?thesis by simp
  next
    case (Inr p)
    then show ?thesis using that by (cases p) simp
  qed
  have v: "validate_header BLOCK_MAP_HEADER_2_0 hdr True = VDO_SUCCESS"
  proof (rule ccontr)
    assume n: "validate_header BLOCK_MAP_HEADER_2_0 hdr True \<noteq> VDO_SUCCESS"
    then have "fst (decode_block_map_state_2_0 b st) =
        validate_header BLOCK_MAP_HEADER_2_0 hdr True"
      by (simp add: defs h)
    with assms n show False by simp
  qed
  obtain v1 b1 where g1: "get_uint64_le_from_buffer b0 = Inr (v1, b1)"
  proof (cases "get_uint64_le_from_buffer b0")
    case (Inl err)
    then have "fst (decode_block_map_state_2_0 b st) = err" by (simp add: defs h v)
    with assms Inl get_err [of b0] show ?thesis by simp
  next
    case (Inr p)
    then show ?thesis using that by (cases p) simp
  qed
  have a1: "v1 = BLOCK_MAP_FLAT_PAGE_ORIGIN"
  proof (rule ccontr)
    assume "v1 \<noteq> BLOCK_MAP_FLAT_PAGE_ORIGIN"
    then have "fst (decode_block_map_state_2_0 b st) = UDS_ASSERTION_FAILED"
      by (simp add: defs h v g1 ASSERT_def UDS_SUCCESS_def)
    with assms neq show False by simp
  qed
  obtain v2 b2 where g2: "get_uint64_le_from_buffer b1 = Inr (v2, b2)"
  proof (cases "get_uint64_le_from_buffer b1")
    case (Inl err)
    then have "fst (decode_block_map_state_2_0 b st) = err"
      by (simp add: defs h v g1 a1 ASSERT_def)
    with assms Inl get_err [of b1] show ?thesis by simp
  next
    case (Inr p)
    then show ?thesis using that by (cases p) simp
  qed
  have a2: "v2 = 0"
  proof (rule ccontr)
    assume "v2 \<noteq> 0"
    then have "fst (decode_block_map_state_2_0 b st) = UDS_ASSERTION_FAILED"
      by (simp add: defs h v g1 a1 g2 ASSERT_def UDS_SUCCESS_def)
    with assms neq show False by simp
  qed
  obtain v3 b3 where g3: "get_uint64_le_from_buffer b2 = Inr (v3, b3)"
  proof (cases "get_uint64_le_from_buffer b2")
    case (Inl err)
    then have "fst (decode_block_map_state_2_0 b st) = err"
      by (simp add: defs h v g1 a1 g2 a2 ASSERT_def)
    with assms Inl get_err [of b2] show ?thesis by simp
  next
    case (Inr p)
    then show ?thesis using that by (cases p) simp
  qed
  obtain v4 b4 where g4: "get_uint64_le_from_buffer b3 = Inr (v4, b4)"
  proof (cases "get_uint64_le_from_buffer b3")
    case (Inl err)
    then have "fst (decode_block_map_state_2_0 b st) = err"
      by (simp add: defs h v g1 a1 g2 a2 g3 ASSERT_def)
    with assms Inl get_err [of b3] show ?thesis by simp
  next
    case (Inr p)
    then show ?thesis using that by (cases p) simp
  qed
  have d: "decode_block_map_state_2_0 b st =
      (ASSERT (unat (header_size BLOCK_MAP_HEADER_2_0) = content_length b0 - content_length b4),
       st\<lparr>flat_page_origin := v1, flat_page_count := v2, root_origin := v3, root_count := v4\<rparr>,
       b4)"
    by (simp add: defs h v g1 g2 g3 g4 a1 a2 ASSERT_def)
  have sz: "unat (header_size BLOCK_MAP_HEADER_2_0) = content_length b0 - content_length b4"
    using assms unfolding d by (simp add: ASSERT_def neq split: if_splits)
  show ?thesis
    using validate_header_success [OF v] sz
    by (simp add: d h a1 a2)
qed

text \<open>
  C8. Encoding a valid block map state (flat page origin canonical, flat page count 0) into
  an empty buffer with room for the 52 bytes succeeds, and decoding the result yields that
  state again. Decoding the encoding of a state whose flat page origin is not the canonical
  one or whose flat page count is not 0 fails. For any buffer at all, whenever decoding
  succeeds the decoded flat page origin is canonical, the decoded flat page count is 0, and
  the number of bytes decoded after the header equals the size recorded in the header: a
  payload failing any of the three is rejected.
\<close>

theorem block_map_state_round_trip:
  "(valid_block_map_state s \<and> content b = [] \<and> 52 \<le> space b \<longrightarrow>
      fst (encode_block_map_state_2_0 s b) = VDO_SUCCESS \<and>
      decode_block_map_state_2_0 (snd (encode_block_map_state_2_0 s b)) st =
        (VDO_SUCCESS, s, \<lparr>content = [], space = space b - 52\<rparr>)) \<and>
   (\<not> valid_block_map_state s \<and> content b = [] \<and> 52 \<le> space b \<longrightarrow>
      fst (encode_block_map_state_2_0 s b) = VDO_SUCCESS \<and>
      fst (decode_block_map_state_2_0 (snd (encode_block_map_state_2_0 s b)) st) =
        UDS_ASSERTION_FAILED) \<and>
   (fst (decode_block_map_state_2_0 b st) = VDO_SUCCESS \<longrightarrow>
      flat_page_origin (fst (snd (decode_block_map_state_2_0 b st))) =
        BLOCK_MAP_FLAT_PAGE_ORIGIN \<and>
      flat_page_count (fst (snd (decode_block_map_state_2_0 b st))) = 0 \<and>
      (\<exists>hdr b0. decode_header b = Inr (hdr, b0) \<and>
         unat (header_size hdr) =
           content_length b0 - content_length (snd (snd (decode_block_map_state_2_0 b st)))))"
proof (intro conjI impI)
  assume a: "valid_block_map_state s \<and> content b = [] \<and> 52 \<le> space b"
  then have b: "b = \<lparr>content = [], space = space b\<rparr>" by (cases b) simp
  from a have e: "encode_block_map_state_2_0 s \<lparr>content = [], space = space b\<rparr> = 
     (VDO_SUCCESS,
      \<lparr>content = le_encode 4 (unat BLOCK_MAP) @ le_encode 4 2 @ le_encode 4 0 @
         le_encode 8 32 @ le_encode 8 (unat (flat_page_origin s)) @
         le_encode 8 (unat (flat_page_count s)) @ le_encode 8 (unat (root_origin s)) @
         le_encode 8 (unat (root_count s)),
       space = space b - 52\<rparr>)"
    by (simp add: encode_result)
  show "fst (encode_block_map_state_2_0 s b) = VDO_SUCCESS"
    by (subst b) (simp only: e fst_conv)
  have "decode_block_map_state_2_0 (snd (encode_block_map_state_2_0 s b)) st =
      decode_block_map_state_2_0 (snd (encode_block_map_state_2_0 s
        \<lparr>content = [], space = space b\<rparr>)) st"
    using b by simp
  also have "\<dots> = (VDO_SUCCESS, s, \<lparr>content = [], space = space b - 52\<rparr>)"
    unfolding e snd_conv decode_encoded using a by (simp add: valid_block_map_state_def)
  finally show "decode_block_map_state_2_0 (snd (encode_block_map_state_2_0 s b)) st =
        (VDO_SUCCESS, s, \<lparr>content = [], space = space b - 52\<rparr>)" .
next
  assume a: "\<not> valid_block_map_state s \<and> content b = [] \<and> 52 \<le> space b"
  then have b: "b = \<lparr>content = [], space = space b\<rparr>" by (cases b) simp
  from a have e: "encode_block_map_state_2_0 s \<lparr>content = [], space = space b\<rparr> = 
     (VDO_SUCCESS,
      \<lparr>content = le_encode 4 (unat BLOCK_MAP) @ le_encode 4 2 @ le_encode 4 0 @
         le_encode 8 32 @ le_encode 8 (unat (flat_page_origin s)) @
         le_encode 8 (unat (flat_page_count s)) @ le_encode 8 (unat (root_origin s)) @
         le_encode 8 (unat (root_count s)),
       space = space b - 52\<rparr>)"
    by (simp add: encode_result)
  show "fst (encode_block_map_state_2_0 s b) = VDO_SUCCESS"
    by (subst b) (simp only: e fst_conv)
  have "decode_block_map_state_2_0 (snd (encode_block_map_state_2_0 s b)) st =
      decode_block_map_state_2_0 (snd (encode_block_map_state_2_0 s
        \<lparr>content = [], space = space b\<rparr>)) st"
    using b by simp
  then show "fst (decode_block_map_state_2_0 (snd (encode_block_map_state_2_0 s b)) st) =
        UDS_ASSERTION_FAILED"
    unfolding e snd_conv decode_encoded using a by (auto simp: valid_block_map_state_def)
next
  assume "fst (decode_block_map_state_2_0 b st) = VDO_SUCCESS"
  then show "flat_page_origin (fst (snd (decode_block_map_state_2_0 b st))) =
      BLOCK_MAP_FLAT_PAGE_ORIGIN"
    and "flat_page_count (fst (snd (decode_block_map_state_2_0 b st))) = 0"
    and "\<exists>hdr b0. decode_header b = Inr (hdr, b0) \<and>
         unat (header_size hdr) =
           content_length b0 - content_length (snd (snd (decode_block_map_state_2_0 b st)))"
    using decode_block_map_state_accepts by blast+
qed

theorem block_map_state_round_trip_witness:
  "decode_block_map_state_2_0
     (snd (encode_block_map_state_2_0
        \<lparr>flat_page_origin = 1, flat_page_count = 0, root_origin = 2, root_count = 60\<rparr>
        \<lparr>content = [], space = 64\<rparr>))
     \<lparr>flat_page_origin = 0, flat_page_count = 0, root_origin = 0, root_count = 0\<rparr> =
     (VDO_SUCCESS,
      \<lparr>flat_page_origin = 1, flat_page_count = 0, root_origin = 2, root_count = 60\<rparr>,
      \<lparr>content = [], space = 12\<rparr>) \<and>
   fst (decode_block_map_state_2_0
     (snd (encode_block_map_state_2_0
        \<lparr>flat_page_origin = 1, flat_page_count = 3, root_origin = 2, root_count = 60\<rparr>
        \<lparr>content = [], space = 64\<rparr>))
     \<lparr>flat_page_origin = 0, flat_page_count = 0, root_origin = 0, root_count = 0\<rparr>) =
     UDS_ASSERTION_FAILED \<and>
   flat_page_count (fst (snd (decode_block_map_state_2_0
     (snd (encode_block_map_state_2_0
        \<lparr>flat_page_origin = 1, flat_page_count = 0, root_origin = 2, root_count = 60\<rparr>
        \<lparr>content = [], space = 64\<rparr>))
     \<lparr>flat_page_origin = 0, flat_page_count = 0, root_origin = 0, root_count = 0\<rparr>))) = 0"
  using block_map_state_round_trip
      [where s = "\<lparr>flat_page_origin = 1, flat_page_count = 0, root_origin = 2, root_count = 60\<rparr>"
         and b = "\<lparr>content = [], space = 64\<rparr>"
         and st = "\<lparr>flat_page_origin = 0, flat_page_count = 0, root_origin = 0, root_count = 0\<rparr>"]
    block_map_state_round_trip
      [where s = "\<lparr>flat_page_origin = 1, flat_page_count = 3, root_origin = 2, root_count = 60\<rparr>"
         and b = "\<lparr>content = [], space = 64\<rparr>"
         and st = "\<lparr>flat_page_origin = 0, flat_page_count = 0, root_origin = 0, root_count = 0\<rparr>"]
    block_map_state_round_trip
      [where b = "snd (encode_block_map_state_2_0
          \<lparr>flat_page_origin = 1, flat_page_count = 0, root_origin = 2, root_count = 60\<rparr>
          \<lparr>content = [], space = 64\<rparr>)"
         and st = "\<lparr>flat_page_origin = 0, flat_page_count = 0, root_origin = 0, root_count = 0\<rparr>"]
  by (simp add: valid_block_map_state_def BLOCK_MAP_FLAT_PAGE_ORIGIN_def)

section \<open>The buffered writer keeps its first error\<close>

text \<open>
  C10. Once the error field of a buffered writer is set, \<^verbatim>\<open>writeToBufferedWriter\<close>,
  \<^verbatim>\<open>writeZerosToBufferedWriter\<close> and \<^verbatim>\<open>flushBufferedWriter\<close> return that stored error
  and leave the writer as it was: no region write, the same buffer contents and position.
  The field is set when the region write of a flush fails: whenever a flush returns an
  error, that error is the one stored.
\<close>

theorem buffered_writer_latches_error:
  "(bw_err bw \<noteq> UDS_SUCCESS \<longrightarrow>
      writeToBufferedWriter w bw data len = Some (bw_err bw, bw) \<and>
      writeZerosToBufferedWriter w bw len = Some (bw_err bw, bw) \<and>
      flushBufferedWriter w bw = (bw_err bw, bw)) \<and>
   (fst (flushBufferedWriter w bw) \<noteq> UDS_SUCCESS \<longrightarrow>
      bw_err (snd (flushBufferedWriter w bw)) = fst (flushBufferedWriter w bw))"
proof (intro conjI impI)
  assume e: "bw_err bw \<noteq> UDS_SUCCESS"
  then show "writeToBufferedWriter w bw data len = Some (bw_err bw, bw)"
    by (simp add: writeToBufferedWriter_def)
  from e show "writeZerosToBufferedWriter w bw len = Some (bw_err bw, bw)"
    by (simp add: writeZerosToBufferedWriter_def)
  from e show "flushBufferedWriter w bw = (bw_err bw, bw)"
    by (simp add: flushBufferedWriter_def)
next
  assume f: "fst (flushBufferedWriter w bw) \<noteq> UDS_SUCCESS"
  show "bw_err (snd (flushBufferedWriter w bw)) = fst (flushBufferedWriter w bw)"
  proof (cases "bw_err bw = UDS_SUCCESS")
    case False
    then show ?thesis by (simp add: flushBufferedWriter_def)
  next
    case True
    with f show ?thesis
      by (simp add: flushBufferedWriter_def Let_def case_prod_beta split: if_splits)
  qed
qed

theorem buffered_writer_latches_error_witness:
  "fst (flushBufferedWriter (\<lambda>r off d sz n. (Num (- EIO), Suc r))
     \<lparr>bw_region = 0, bw_pos = 0, bw_size = 4, bw_buf = [1, 2, 0, 0], bw_ptr = 2,
      bw_err = UDS_SUCCESS, bw_used = True\<rparr>) \<noteq> UDS_SUCCESS \<and>
   snd (flushBufferedWriter (\<lambda>r off d sz n. (Num (- EIO), Suc r))
     \<lparr>bw_region = 0, bw_pos = 0, bw_size = 4, bw_buf = [1, 2, 0, 0], bw_ptr = 2,
      bw_err = UDS_SUCCESS, bw_used = True\<rparr>) =
     \<lparr>bw_region = Suc 0, bw_pos = 0, bw_size = 4, bw_buf = [1, 2, 0, 0], bw_ptr = 2,
      bw_err = Num (- EIO), bw_used = True\<rparr> \<and>
   writeToBufferedWriter (\<lambda>r off d sz n. (Num (- EIO), Suc r))
     \<lparr>bw_region = Suc 0, bw_pos = 0, bw_size = 4, bw_buf = [1, 2, 0, 0], bw_ptr = 2,
      bw_err = Num (- EIO), bw_used = True\<rparr> [7, 8, 9] 3 =
     Some (Num (- EIO),
       \<lparr>bw_region = Suc 0, bw_pos = 0, bw_size = 4, bw_buf = [1, 2, 0, 0], bw_ptr = 2,
        bw_err = Num (- EIO), bw_used = True\<rparr>) \<and>
   writeZerosToBufferedWriter (\<lambda>r off d sz n. (Num (- EIO), Suc r))
     \<lparr>bw_region = Suc 0, bw_pos = 0, bw_size = 4, bw_buf = [1, 2, 0, 0], bw_ptr = 2,
      bw_err = Num (- EIO), bw_used = True\<rparr> 3 =
     Some (Num (- EIO),
       \<lparr>bw_region = Suc 0, bw_pos = 0, bw_size = 4, bw_buf = [1, 2, 0, 0], bw_ptr = 2,
        bw_err = Num (- EIO), bw_used = True\<rparr>)"
proof -
  let ?w = "\<lambda>(r::nat) (off::nat) (d::byte list) (sz::nat) (n::nat). (Num (- EIO), Suc r)"
  let ?bw0 = "\<lparr>bw_region = 0::nat, bw_pos = 0, bw_size = 4, bw_buf = [1, 2, 0, 0], bw_ptr = 2,
      bw_err = UDS_SUCCESS, bw_used = True\<rparr>"
  let ?bw1 = "\<lparr>bw_region = Suc 0, bw_pos = 0, bw_size = 4, bw_buf = [1, 2, 0, 0], bw_ptr = 2,
      bw_err = Num (- EIO), bw_used = True\<rparr>"
  have fl: "flushBufferedWriter ?w ?bw0 = (Num (- EIO), ?bw1)"
    by (simp add: flushBufferedWriter_def spaceUsedInBuffer_def UDS_SUCCESS_def EIO_def)
  have ne: "bw_err ?bw1 \<noteq> UDS_SUCCESS"
    by (simp add: UDS_SUCCESS_def EIO_def)
  show ?thesis
    using buffered_writer_latches_error [where w = ?w and bw = ?bw1 and data = "[7, 8, 9]"
        and len = 3] buffered_writer_latches_error [where w = ?w and bw = ?bw0] ne
    by (simp add: fl)
qed

end
